theory Spec2Isabelle
  imports Complex_Main "HOL-Library.Multiset"
begin

section \<open>Values received from the analysis endpoints\<close>

text \<open>
  The React components read JSON objects. A property that may be absent is an
  \<open>option\<close> (\<open>None\<close> is JavaScript's \<open>undefined\<close>; a property that is \<open>null\<close>
  behaves like an absent one in every read modelled with an \<open>option\<close>); a property
  the component reads without a guard keeps its plain type where the component cannot
  fail on it.
  JavaScript Numbers are modelled as real numbers: the rounding of IEEE doubles, NaN
  and the infinities are outside the model. Strings are byte lists holding UTF-8;
  the three non-ASCII glyphs of the status labels are written as their bytes.
\<close>

text \<open>\<open>a || b\<close> on strings: the empty string and \<open>undefined\<close> are falsy.\<close>

definition or_str :: "string option \<Rightarrow> string option \<Rightarrow> string option" where
  "or_str a b = (case a of None \<Rightarrow> b | Some s \<Rightarrow> if s = [] then b else Some s)"

text \<open>\<open>a || b\<close> on numbers: \<open>0\<close> and \<open>undefined\<close> are falsy.\<close>

definition or_num :: "real option \<Rightarrow> real option \<Rightarrow> real option" where
  "or_num a b = (case a of None \<Rightarrow> b | Some v \<Rightarrow> if v = 0 then b else Some v)"

text \<open>\<open>x >= c\<close> with \<open>x\<close> possibly \<open>undefined\<close>: \<open>undefined\<close> converts to
  NaN, and every comparison with NaN is false.\<close>

definition ge :: "real option \<Rightarrow> real \<Rightarrow> bool" where
  "ge x c = (case x of None \<Rightarrow> False | Some v \<Rightarrow> c \<le> v)"

section \<open>Status and match-quality indicators\<close>

text \<open>The four statuses of a per-table outcome.\<close>

definition statuses :: "string set" where
  "statuses = {''success'', ''no_data'', ''no_match'', ''error''}"

text \<open>\<open>getStatusColor\<close> and \<open>getStatusText\<close> (UnifiedDemographicAnalysis.js; the
  education, age, income and profession components carry identical copies). The
  \<open>switch\<close> compares with \<open>===\<close>, so a status that is absent, or is not a string,
  takes the default branch; \<open>None\<close> stands for both.\<close>

definition getStatusColor :: "string option \<Rightarrow> string" where
  "getStatusColor status =
     (if status = Some ''success'' then ''#10b981''
      else if status = Some ''no_data'' then ''#6b7280''
      else if status = Some ''no_match'' then ''#f59e0b''
      else if status = Some ''error'' then ''#ef4444''
      else ''#6b7280'')"

definition getStatusText :: "string option \<Rightarrow> string" where
  "getStatusText status =
     (if status = Some ''success'' then [CHR 0xE2, CHR 0x9C, CHR 0x93] @ '' Available''
      else if status = Some ''no_data'' then [CHR 0xE2, CHR 0x9A, CHR 0xA0] @ '' No Data''
      else if status = Some ''no_match'' then [CHR 0xE2, CHR 0x9A, CHR 0xA0] @ '' No Match''
      else if status = Some ''error'' then [CHR 0xE2, CHR 0x9C, CHR 0x97] @ '' Error''
      else ''? Unknown'')"

record indicator =
  label :: string
  color :: string

text \<open>\<open>getSimilarityIndicator\<close> of UnifiedDemographicAnalysis.js (field \<open>text\<close> of
  the source is \<open>label\<close> here).\<close>

definition getSimilarityIndicator :: "real option \<Rightarrow> indicator" where
  "getSimilarityIndicator score =
     (if ge score (95/100) then \<lparr>label = ''Perfect Match'', color = ''#10b981''\<rparr>
      else if ge score (8/10) then \<lparr>label = ''Very Good'', color = ''#059669''\<rparr>
      else if ge score (5/10) then \<lparr>label = ''Good Match'', color = ''#fbbf24''\<rparr>
      else if ge score (3/10) then \<lparr>label = ''Partial'', color = ''#f59e0b''\<rparr>
      else \<lparr>label = ''Limited'', color = ''#ef4444''\<rparr>)"

text \<open>\<open>getSimilarityIndicator\<close> of the education analysis component.\<close>

definition getSimilarityIndicatorEdu :: "real option \<Rightarrow> indicator" where
  "getSimilarityIndicatorEdu score =
     (if ge score (95/100) then \<lparr>label = ''Perfect Match'', color = ''#10b981''\<rparr>
      else if ge score (8/10) then \<lparr>label = ''Very Good Match'', color = ''#059669''\<rparr>
      else if ge score (6/10) then \<lparr>label = ''Good Match'', color = ''#fbbf24''\<rparr>
      else if ge score (4/10) then \<lparr>label = ''Moderate Match'', color = ''#f59e0b''\<rparr>
      else \<lparr>label = ''Limited Match'', color = ''#ef4444''\<rparr>)"

text \<open>\<open>getOverlapIndicator\<close> of the income analysis component.\<close>

definition getOverlapIndicator :: "real option \<Rightarrow> indicator" where
  "getOverlapIndicator score =
     (if ge score (95/100) then \<lparr>label = ''Perfect Match'', color = ''#10b981''\<rparr>
      else if ge score (8/10) then \<lparr>label = ''Very Good Match'', color = ''#059669''\<rparr>
      else if ge score (5/10) then \<lparr>label = ''Good Match'', color = ''#fbbf24''\<rparr>
      else if ge score (3/10) then \<lparr>label = ''Partial Match'', color = ''#f59e0b''\<rparr>
      else \<lparr>label = ''Limited Match'', color = ''#ef4444''\<rparr>)"

text \<open>The five quality tiers, best first. All three components paint a tier with
  the same colour, so the colour of an indicator identifies its tier.\<close>

definition tier :: "indicator \<Rightarrow> nat" where
  "tier i =
     (if color i = ''#10b981'' then 1
      else if color i = ''#059669'' then 2
      else if color i = ''#fbbf24'' then 3
      else if color i = ''#f59e0b'' then 4
      else 5)"

section \<open>Per-table outcomes and their panels\<close>

text \<open>What a render can throw: a \<open>TypeError\<close>, when a property of \<open>undefined\<close> or
  \<open>null\<close> is read or something that is not a function is called, and React's error
  ``Objects are not valid as a React child''.\<close>

datatype js_error = TypeError | InvalidChild

record item =
  category :: string

text \<open>A distribution item as the endpoints return it: category, count
  (\<open>value\<close>) and percentage.\<close>

record dist_item = item +
  "value" :: real
  percentage :: real

text \<open>\<open>{...item, name: item.category}\<close>: the item with one more property.\<close>

record 'a named =
  item :: 'a
  name :: string

record conditional =
  data :: "dist_item list option"

text \<open>A per-table outcome (\<open>distributionData\<close>) with the types the per-table step
  of the orchestrator gives its properties: strings for the status, the name, the
  error text and the data source, numbers for the scores and the total. \<open>title\<close>
  is its property \<open>name\<close>. The string properties read under a computed key
  (\<open>matched_...\<close>, \<open>..._explanation\<close>) are the map \<open>strs\<close>. What the components do
  with a parsed outcome of any content, where a displayed property can be an object
  that React refuses, is followed in section ``The response as JSON''; on a parsed
  outcome with the properties of a typed one the two agree (\<open>parsed_as\<close>).\<close>

record outcome =
  status :: "string option"
  title :: "string option"
  error :: "string option"
  similarity_score :: "real option"
  overlap_score :: "real option"
  conditional_distribution :: "conditional option"
  total_population :: "real option"
  data_source :: "string option"
  strs :: "string \<Rightarrow> string option"

text \<open>An outcome that carries a status and a name only.\<close>

definition blank_outcome :: "string \<Rightarrow> string \<Rightarrow> outcome" where
  "blank_outcome ttl st =
     \<lparr>status = Some st, title = Some ttl, error = None, similarity_score = None,
      overlap_score = None, conditional_distribution = None, total_population = None,
      data_source = None, strs = (\<lambda>k. None)\<rparr>"

text \<open>The selectable analysis types (the keys of \<open>UNIFIED_ANALYSIS_TYPES\<close>).\<close>

datatype analysis_type = Age | Education | Income | Gender | Profession | Race

fun type_key :: "analysis_type \<Rightarrow> string" where
  "type_key Age = ''age''"
| "type_key Education = ''education''"
| "type_key Income = ''income''"
| "type_key Gender = ''gender''"
| "type_key Profession = ''profession''"
| "type_key Race = ''race''"

record chart_panel =
  panel_key :: string
  panel_title :: "string option"
  panel_indicator :: indicator
  panel_status_color :: string
  panel_status_text :: string
  requested :: "string option"
  matched :: "string option"
  explanation :: "string option"
  population_shown :: real
  categories :: nat
  chartData :: "dist_item named list"
  source_shown :: "string option"

record failed_panel =
  failed_key :: string
  failed_title :: "string option"
  failed_status_color :: string
  failed_status_text :: string
  failed_error :: "string option"
  best_match :: "string option"

datatype panel = ChartPanel chart_panel | FailedPanel failed_panel

text \<open>The score an outcome is treated as having in the unified analysis:
  \<open>similarity_score || overlap_score || 1.0\<close>.\<close>

definition effective_score :: "outcome \<Rightarrow> real option" where
  "effective_score d = or_num (or_num (similarity_score d) (overlap_score d)) (Some 1)"

text \<open>\<open>renderDistributionChart\<close> of UnifiedDemographicAnalysis.js. \<open>target\<close> is
  \<open>analysisData[`target_${selectedAnalysisType}`]\<close>. Reading \<open>.data.map\<close> of an
  absent \<open>conditional_distribution\<close> and \<open>.toLocaleString()\<close> of an absent
  \<open>total_population\<close> throw. Inline styles that no function of this file computes
  are left out of the panel.\<close>

definition renderDistributionChart ::
  "analysis_type \<Rightarrow> string \<Rightarrow> string option \<Rightarrow> string \<Rightarrow> outcome \<Rightarrow> js_error + panel option" where
  "renderDistributionChart selectedAnalysisType selectedValue target distributionKey distributionData =
     (if status distributionData \<noteq> Some ''success'' then Inr None
      else case conditional_distribution distributionData of
        None \<Rightarrow> Inl TypeError
      | Some cd \<Rightarrow>
         (case data cd of
            None \<Rightarrow> Inl TypeError
          | Some items \<Rightarrow>
             (let chart = map (\<lambda>i. \<lparr>item = i, name = category i\<rparr>) items;
                  score = effective_score distributionData;
                  indicator = getSimilarityIndicator score
              in case total_population distributionData of
                   None \<Rightarrow> Inl TypeError
                 | Some shown \<Rightarrow>
                    Inr (Some (ChartPanel
                      \<lparr>panel_key = distributionKey,
                       panel_title = title distributionData,
                       panel_indicator = indicator,
                       panel_status_color = getStatusColor (status distributionData),
                       panel_status_text = getStatusText (status distributionData),
                       requested = or_str target (Some selectedValue),
                       matched =
                         or_str (strs distributionData (''matched_'' @ type_key selectedAnalysisType))
                          (or_str (strs distributionData ''matched_gender'')
                            (or_str (strs distributionData ''matched_income'')
                              (or_str (strs distributionData ''matched_education'')
                                (or_str (strs distributionData ''matched_age_range'')
                                  (Some ''Unknown''))))),
                       explanation =
                         or_str (strs distributionData (type_key selectedAnalysisType @ ''_explanation''))
                          (or_str (strs distributionData ''gender_explanation'')
                            (or_str (strs distributionData ''income_explanation'')
                              (or_str (strs distributionData ''education_explanation'')
                                (or_str (strs distributionData ''range_explanation'')
                                  (Some ''Matched''))))),
                       population_shown = shown,
                       categories = length chart,
                       chartData = chart,
                       source_shown = or_str (data_source distributionData) (Some ''Unknown'')\<rparr>)))))"

text \<open>Evaluating the children of a JSX element in order: the first throw ends the
  render of the whole component.\<close>

fun sequence :: "('e + 'a) list \<Rightarrow> 'e + 'a list" where
  "sequence [] = Inr []"
| "sequence (x # xs) =
     (case x of
        Inl e \<Rightarrow> Inl e
      | Inr v \<Rightarrow> (case sequence xs of Inl e \<Rightarrow> Inl e | Inr vs \<Rightarrow> Inr (v # vs)))"

text \<open>\<open>x && (...)\<close> on a string: the element is rendered when the string is
  present and not empty.\<close>

definition when_str :: "string option \<Rightarrow> string option" where
  "when_str a = (case a of None \<Rightarrow> None | Some s \<Rightarrow> if s = [] then None else Some s)"

text \<open>\<open>renderDistributionChart\<close> of the education analysis component; \<open>target\<close> is
  \<open>analysisData.target_education\<close>.\<close>

definition renderDistributionChartEdu ::
  "string option \<Rightarrow> string \<Rightarrow> outcome \<Rightarrow> js_error + panel option" where
  "renderDistributionChartEdu target distributionKey distributionData =
     (if status distributionData \<noteq> Some ''success'' then Inr None
      else case conditional_distribution distributionData of
        None \<Rightarrow> Inl TypeError
      | Some cd \<Rightarrow>
         (case data cd of
            None \<Rightarrow> Inl TypeError
          | Some items \<Rightarrow>
             (let chart = map (\<lambda>i. \<lparr>item = i, name = category i\<rparr>) items;
                  similarity = getSimilarityIndicatorEdu (similarity_score distributionData)
              in case total_population distributionData of
                   None \<Rightarrow> Inl TypeError
                 | Some shown \<Rightarrow>
                    Inr (Some (ChartPanel
                      \<lparr>panel_key = distributionKey,
                       panel_title = title distributionData,
                       panel_indicator = similarity,
                       panel_status_color = getStatusColor (status distributionData),
                       panel_status_text = getStatusText (status distributionData),
                       requested = target,
                       matched = strs distributionData ''matched_education'',
                       explanation = strs distributionData ''education_explanation'',
                       population_shown = shown,
                       categories = length chart,
                       chartData = chart,
                       source_shown = or_str (data_source distributionData) (Some ''Unknown'')\<rparr>)))))"

text \<open>\<open>renderFailedDistribution\<close> of the education analysis component: below the
  error text it shows ``Best match found'' when the outcome carries
  \<open>matched_education\<close>. On an outcome of this type, whose name, error text and
  matched category are strings, it does not throw; \<open>renderFailedDistribution_json\<close>
  follows it on a parsed outcome.\<close>

definition renderFailedDistributionEdu :: "string \<Rightarrow> outcome \<Rightarrow> js_error + panel option" where
  "renderFailedDistributionEdu distributionKey distributionData =
     Inr (Some (FailedPanel
       \<lparr>failed_key = distributionKey,
        failed_title = title distributionData,
        failed_status_color = getStatusColor (status distributionData),
        failed_status_text = getStatusText (status distributionData),
        failed_error = or_str (error distributionData) (Some ''Unable to retrieve data''),
        best_match = when_str (strs distributionData ''matched_education'')\<rparr>))"

text \<open>The ``Distribution Charts'' block of the education analysis component.\<close>

definition render_distributions_edu ::
  "string option \<Rightarrow> (string \<times> outcome) list \<Rightarrow> js_error + panel option list" where
  "render_distributions_edu target distributions =
     sequence (map (\<lambda>(key, d).
       if status d = Some ''success''
       then renderDistributionChartEdu target key d
       else renderFailedDistributionEdu key d) distributions)"

text \<open>A success outcome is complete when it carries what its chart panel reads
  without a guard: \<open>conditional_distribution.data\<close> and \<open>total_population\<close>.\<close>

definition complete :: "outcome \<Rightarrow> bool" where
  "complete d \<longleftrightarrow>
     (case conditional_distribution d of None \<Rightarrow> False | Some cd \<Rightarrow> data cd \<noteq> None)
     \<and> total_population d \<noteq> None"

section \<open>Sorting by a canonical category order\<close>

text \<open>\<open>Array.prototype.indexOf\<close>: the first position of the element, \<open>-1\<close> when it
  does not occur.\<close>

fun indexOf :: "'a list \<Rightarrow> 'a \<Rightarrow> int" where
  "indexOf [] x = - 1"
| "indexOf (y # ys) x =
     (if y = x then 0 else (let i = indexOf ys x in if i = - 1 then - 1 else i + 1))"

text \<open>\<open>[...xs].sort(cmp)\<close>. For a consistent comparator ECMAScript fixes the
  result, whatever algorithm the engine runs: the elements in ascending order of
  \<open>cmp\<close>, equal ones in their original order. This is the stable insertion sort.\<close>

fun insert_by :: "('a \<Rightarrow> 'a \<Rightarrow> int) \<Rightarrow> 'a \<Rightarrow> 'a list \<Rightarrow> 'a list" where
  "insert_by cmp x [] = [x]"
| "insert_by cmp x (y # ys) = (if cmp x y \<le> 0 then x # y # ys else y # insert_by cmp x ys)"

definition sort_by :: "('a \<Rightarrow> 'a \<Rightarrow> int) \<Rightarrow> 'a list \<Rightarrow> 'a list" where
  "sort_by cmp xs = foldr (insert_by cmp) xs []"

text \<open>The data of the age-income joint chart (\<open>AgeIncomeJointChart\<close>, App.js).\<close>

record joint_data =
  age_marginal :: "dist_item list option"
  income_marginal :: "dist_item list option"

definition ageOrder :: "string list" where
  "ageOrder = [''Under 25 years'', ''25 to 44 years'', ''45 to 64 years'', ''65 years and over'']"

definition incomeOrder :: "string list" where
  "incomeOrder =
     [''Less than $10,000'', ''$10,000 to $14,999'', ''$15,000 to $19,999'',
      ''$20,000 to $24,999'', ''$25,000 to $29,999'', ''$30,000 to $34,999'',
      ''$35,000 to $39,999'', ''$40,000 to $44,999'', ''$45,000 to $49,999'',
      ''$50,000 to $59,999'', ''$60,000 to $74,999'', ''$75,000 to $99,999'',
      ''$100,000 to $124,999'', ''$125,000 to $149,999'',
      ''$150,000 to $199,999'', ''$200,000 or more'']"

text \<open>\<open>sortedAgeData\<close> and \<open>sortedIncomeData\<close>; \<open>data\<close> is the component's prop,
  \<open>None\<close> when it is absent.\<close>

definition sortedAgeData :: "joint_data option \<Rightarrow> dist_item list" where
  "sortedAgeData d =
     (case d of
        None \<Rightarrow> []
      | Some j \<Rightarrow>
         (case age_marginal j of
            None \<Rightarrow> []
          | Some xs \<Rightarrow>
             sort_by (\<lambda>a b. indexOf ageOrder (category a) - indexOf ageOrder (category b)) xs))"

definition sortedIncomeData :: "joint_data option \<Rightarrow> dist_item list" where
  "sortedIncomeData d =
     (case d of
        None \<Rightarrow> []
      | Some j \<Rightarrow>
         (case income_marginal j of
            None \<Rightarrow> []
          | Some xs \<Rightarrow>
             sort_by (\<lambda>a b. indexOf incomeOrder (category a) - indexOf incomeOrder (category b)) xs))"

text \<open>\<open>sortDistributionData\<close> (the second \<open>UnifiedDistributionSystem\<close> of App.js):
  categories outside the order go to the end. \<open>options\<close> is the table
  \<open>CONDITIONAL_OPTIONS\<close>.\<close>

definition sortDistributionData ::
  "(string \<Rightarrow> string list option) \<Rightarrow> dist_item list option \<Rightarrow> string option \<Rightarrow> dist_item list option" where
  "sortDistributionData options d distributionType =
     (case d of
        None \<Rightarrow> None
      | Some xs \<Rightarrow>
         if xs = [] then Some xs
         else (case (case distributionType of None \<Rightarrow> None | Some t \<Rightarrow> options t) of
                 None \<Rightarrow> Some xs
               | Some sortOrder \<Rightarrow>
                  Some (sort_by (\<lambda>a b.
                    (let indexA = indexOf sortOrder (category a);
                         indexB = indexOf sortOrder (category b)
                     in if indexA = - 1 \<and> indexB = - 1 then 0
                        else if indexA = - 1 then 1
                        else if indexB = - 1 then - 1
                        else indexA - indexB)) xs)))"

section \<open>Chart components\<close>

text \<open>What a bar-chart component hands to the chart library: title, rows, bar
  colour and the type that selects the tick format. The tick formatter and the
  tooltip are callbacks of the chart library and are not part of the element
  returned.\<close>

record bar_chart =
  chart_title :: string
  rows :: "dist_item list"
  fill :: string
  tick_type :: string

text \<open>\<open>DistributionChart\<close> of App.js; \<open>None\<close> is \<open>null\<close>.\<close>

definition DistributionChart_App ::
  "dist_item list option \<Rightarrow> string \<Rightarrow> string \<Rightarrow> string \<Rightarrow> bar_chart option" where
  "DistributionChart_App d ttl clr type =
     (case d of
        None \<Rightarrow> None
      | Some xs \<Rightarrow>
         if length xs = 0 then None
         else Some \<lparr>chart_title = ttl, rows = xs, fill = clr, tick_type = type\<rparr>)"

text \<open>\<open>DistributionChart\<close> of IndividualDistributions.js.\<close>

definition DistributionChart_Individual ::
  "dist_item list option \<Rightarrow> string \<Rightarrow> string \<Rightarrow> string \<Rightarrow> bar_chart option" where
  "DistributionChart_Individual d ttl clr type =
     (case d of
        None \<Rightarrow> None
      | Some xs \<Rightarrow>
         if length xs = 0 then None
         else Some \<lparr>chart_title = ttl, rows = xs, fill = clr, tick_type = type\<rparr>)"

text \<open>The two \<open>UnifiedDistributionChart\<close> components of App.js; the second sorts
  its rows.\<close>

definition UnifiedDistributionChart ::
  "dist_item list option \<Rightarrow> string \<Rightarrow> string \<Rightarrow> string \<Rightarrow> bar_chart option" where
  "UnifiedDistributionChart d ttl clr type =
     (case d of
        None \<Rightarrow> None
      | Some xs \<Rightarrow>
         if length xs = 0 then None
         else Some \<lparr>chart_title = ttl, rows = xs, fill = clr, tick_type = type\<rparr>)"

definition UnifiedDistributionChart_sorted ::
  "(string \<Rightarrow> string list option) \<Rightarrow> dist_item list option \<Rightarrow> string \<Rightarrow> string \<Rightarrow> string
     \<Rightarrow> bar_chart option" where
  "UnifiedDistributionChart_sorted options d ttl clr type =
     (case d of
        None \<Rightarrow> None
      | Some xs \<Rightarrow>
         if length xs = 0 then None
         else (case sortDistributionData options d (Some type) of
                 None \<Rightarrow> None
               | Some sortedData \<Rightarrow>
                  Some \<lparr>chart_title = ttl, rows = sortedData, fill = clr, tick_type = type\<rparr>))"

section \<open>Trade-area charts (StorewiseDemographics.js)\<close>

definition DATA_TYPE_COLORS :: "(string \<times> string) list" where
  "DATA_TYPE_COLORS =
     [(''Age'', ''#008a89''), (''Gender'', ''#f97316''), (''Education'', ''#319dff''),
      (''Income'', ''#06b6d4''), (''Profession'', ''#8b5cf6''), (''Race/Ethnicity'', ''#10b981'')]"

record sw_item = item +
  population :: real

text \<open>A row of \<open>chartData\<close>: \<open>{...item, total: total, name: ...}\<close>. The tooltip reads
  \<open>total\<close> with \<open>|| 0\<close>, so the property is optional in the row.\<close>

record sw_point =
  pt_item :: sw_item
  pt_total :: "real option"
  pt_name :: string

text \<open>Strings are byte lists holding UTF-8, while JavaScript measures and cuts a
  string in UTF-16 code units: a character of one, two or three bytes is one unit, a
  character of four bytes is two units (a surrogate pair). \<open>seq_bytes\<close> is the number
  of bytes of the character that starts with a given byte.\<close>

definition seq_bytes :: "char \<Rightarrow> nat" where
  "seq_bytes c =
     (let b = of_char c :: nat
      in if 240 \<le> b then 4 else if 224 \<le> b then 3 else if 192 \<le> b then 2 else 1)"

text \<open>The characters of a string, each as its bytes.\<close>

fun code_points :: "string \<Rightarrow> string list" where
  "code_points [] = []"
| "code_points (c # cs) = take (seq_bytes c) (c # cs) # code_points (drop (seq_bytes c - 1) cs)"

text \<open>The two halves of the surrogate pair of a character of four bytes, each
  written as the three bytes UTF-8 gives a code unit of that value.\<close>

definition surrogate_pair :: "string \<Rightarrow> string \<times> string" where
  "surrogate_pair p =
     (case map of_char p of
        [b0, b1, b2, b3] \<Rightarrow>
          (let cp = (b0 - 240) * 262144 + (b1 - 128) * 4096 + (b2 - 128) * 64 + (b3 - (128::nat));
               hi = 55296 + (cp - 65536) div 1024;
               lo = 56320 + (cp - 65536) mod 1024
           in ([char_of (224 + hi div 4096), char_of (128 + hi div 64 mod 64),
                char_of (128 + hi mod 64)],
               [char_of (224 + lo div 4096), char_of (128 + lo div 64 mod 64),
                char_of (128 + lo mod 64)]))
      | _ \<Rightarrow> (p, []))"

text \<open>The UTF-16 code units of a string, and their number, which is \<open>s.length\<close>.\<close>

definition code_units :: "string \<Rightarrow> string list" where
  "code_units s =
     concat (map (\<lambda>p. if length p = 4 then [fst (surrogate_pair p), snd (surrogate_pair p)]
                        else [p]) (code_points s))"

definition js_length :: "string \<Rightarrow> nat" where
  "js_length s = length (code_units s)"

text \<open>\<open>s.substring(0, n)\<close>: the first \<open>n\<close> code units; a cut inside a surrogate pair
  keeps its first half.\<close>

fun take_units :: "nat \<Rightarrow> string list \<Rightarrow> string" where
  "take_units n [] = []"
| "take_units n (p # ps) =
     (if n = 0 then []
      else if length p = 4
        then (if n = 1 then fst (surrogate_pair p) else p @ take_units (n - 2) ps)
        else p @ take_units (n - 1) ps)"

definition substring :: "nat \<Rightarrow> string \<Rightarrow> string" where
  "substring n s = take_units n (code_points s)"

text \<open>\<open>s.length > n ? s.substring(0, n) + '...' : s\<close>.\<close>

definition ellipsis :: "nat \<Rightarrow> string \<Rightarrow> string" where
  "ellipsis n s = (if js_length s > n then substring n s @ ''...'' else s)"

datatype chart_kind = Pie | Bar

text \<open>The card \<open>DistributionChart\<close> returns: the total shown, the rows given to the
  chart and, for a pie, the legend of the first six rows.\<close>

record sw_chart =
  sw_kind :: chart_kind
  sw_title :: string
  sw_color :: "string option"
  sw_total :: real
  points :: "sw_point list"
  legend :: "(string \<times> real) list"

definition DistributionChart_Storewise ::
  "string \<Rightarrow> sw_item list option \<Rightarrow> string \<Rightarrow> string \<Rightarrow> sw_chart option" where
  "DistributionChart_Storewise ttl d dataType chartType =
     (case d of
        None \<Rightarrow> None
      | Some xs \<Rightarrow>
         if length xs = 0 then None
         else
           (let sm = foldl (\<lambda>sum i. sum + population i) 0 xs;
                chart = map (\<lambda>i. \<lparr>pt_item = i, pt_total = Some sm,
                                    pt_name = ellipsis 20 (category i)\<rparr>) xs
            in if chartType = ''pie''
               then Some \<lparr>sw_kind = Pie, sw_title = ttl,
                          sw_color = map_of DATA_TYPE_COLORS dataType,
                          sw_total = sm, points = chart,
                          legend = map (\<lambda>p. (ellipsis 25 (category (pt_item p)),
                                               population (pt_item p))) (take 6 chart)\<rparr>
               else Some \<lparr>sw_kind = Bar, sw_title = ttl,
                          sw_color = map_of DATA_TYPE_COLORS dataType,
                          sw_total = sm, points = chart, legend = []\<rparr>))"

text \<open>What the chart library passes to the tooltip for a hovered row of a chart
  whose \<open>dataKey\<close> is \<open>population\<close>: one entry, \<open>value\<close> the row's population and
  \<open>payload\<close> the row.\<close>

record tip_entry =
  tip_value :: real
  tip_payload :: sw_point

definition hovered :: "sw_point \<Rightarrow> tip_entry list" where
  "hovered p = [\<lparr>tip_value = population (pt_item p), tip_payload = p\<rparr>]"

record tooltip =
  tip_label :: string
  tip_color :: "string option"
  tip_population :: real
  tip_percentage :: real

text \<open>\<open>CustomTooltip\<close>. \<open>tip_percentage\<close> is the number handed to \<open>toFixed(1)\<close>.\<close>

definition CustomTooltip ::
  "bool \<Rightarrow> tip_entry list option \<Rightarrow> string \<Rightarrow> string \<Rightarrow> tooltip option" where
  "CustomTooltip active payload lbl dataType =
     (case payload of
        None \<Rightarrow> None
      | Some es \<Rightarrow>
         if active \<and> length es \<noteq> 0 then
           (let d = hd es;
                v = tip_value d;
                tot = (case or_num (pt_total (tip_payload d)) (Some 0) of
                         None \<Rightarrow> 0 | Some t \<Rightarrow> t);
                pct = (if tot > 0 then (v / tot) * 100 else 0)
            in Some \<lparr>tip_label = lbl, tip_color = map_of DATA_TYPE_COLORS dataType,
                     tip_population = v, tip_percentage = pct\<rparr>)
         else None)"

text \<open>The percentage the tooltip shows for a hovered row.\<close>

definition shown_percentage :: "string \<Rightarrow> sw_point \<Rightarrow> real option" where
  "shown_percentage dataType p =
     map_option tip_percentage (CustomTooltip True (Some (hovered p)) (pt_name p) dataType)"

section \<open>The response as JSON\<close>

text \<open>The parsed response body. An object is the list of its properties in
  enumeration order, with distinct keys.\<close>

datatype json =
    JNull
  | JBool bool
  | JNum real
  | JStr string
  | JArr "json list"
  | JObj "(string \<times> json) list"

text \<open>Truthiness of a parsed value: \<open>null\<close>, \<open>false\<close>, \<open>0\<close> and the empty
  string are falsy.\<close>

fun truthy :: "json \<Rightarrow> bool" where
  "truthy JNull = False"
| "truthy (JBool b) = b"
| "truthy (JNum n) = (n \<noteq> 0)"
| "truthy (JStr s) = (s \<noteq> [])"
| "truthy x = True"

text \<open>\<open>a || b\<close> on values that may be \<open>undefined\<close>.\<close>

definition or_js :: "json option \<Rightarrow> json option \<Rightarrow> json option" where
  "or_js a b = (case a of None \<Rightarrow> b | Some x \<Rightarrow> if truthy x then Some x else b)"

text \<open>\<open>x.k\<close> for a value \<open>x\<close> that is not \<open>null\<close> and a key \<open>k\<close> that is not the
  name of a built-in property (the keys read below are \<open>metadata\<close>,
  \<open>successful_retrievals\<close>, \<open>total_distributions\<close>, \<open>location_details\<close>,
  \<open>county_name\<close>, \<open>state_name\<close>, \<open>distributions\<close>, \<open>status\<close>, \<open>name\<close>, \<open>error\<close>,
  \<open>conditional_distribution\<close>, \<open>data\<close>, \<open>category\<close>, \<open>total_population\<close>,
  \<open>data_source\<close> and the \<open>target_...\<close>, \<open>matched_...\<close> and \<open>..._explanation\<close> keys):
  an object gives its property or \<open>undefined\<close>, every other value gives \<open>undefined\<close>.
  (On \<open>null\<close>, where the read throws, \<open>get\<close> is \<open>None\<close>; the read itself is
  \<open>member\<close>.)\<close>

fun get :: "json \<Rightarrow> string \<Rightarrow> json option" where
  "get (JObj kvs) k = map_of kvs k"
| "get x k = None"

text \<open>\<open>x.k\<close> for any parsed value: \<open>null\<close> throws.\<close>

definition member :: "json \<Rightarrow> string \<Rightarrow> js_error + json option" where
  "member x k = (if x = JNull then Inl TypeError else Inr (get x k))"

text \<open>The same read when the value may be \<open>undefined\<close>, which throws as well.\<close>

definition member_opt :: "json option \<Rightarrow> string \<Rightarrow> js_error + json option" where
  "member_opt x k = (case x of None \<Rightarrow> Inl TypeError | Some y \<Rightarrow> member y k)"

text \<open>\<open>x?.k\<close>: \<open>undefined\<close> when \<open>x\<close> is \<open>undefined\<close> or \<open>null\<close>.\<close>

definition get_opt :: "json option \<Rightarrow> string \<Rightarrow> json option" where
  "get_opt x k = (case x of None \<Rightarrow> None | Some y \<Rightarrow> get y k)"

text \<open>Decimal digits of an array index.\<close>

fun index_key :: "nat \<Rightarrow> string" where
  "index_key n =
     (if n < 10 then [''0123456789'' ! n]
      else index_key (n div 10) @ [''0123456789'' ! (n mod 10)])"

declare index_key.simps [simp del]

text \<open>The entries \<open>Object.entries(x)\<close> lists for a value that is not \<open>null\<close>: the
  properties of an object, the elements of an array and the code units of a string
  by index, nothing for a number or a boolean.\<close>

fun entries :: "json \<Rightarrow> (string \<times> json) list" where
  "entries (JObj kvs) = kvs"
| "entries (JArr xs) = zip (map index_key [0..<length xs]) xs"
| "entries (JStr s) = zip (map index_key [0..<js_length s]) (map JStr (code_units s))"
| "entries x = []"

text \<open>\<open>Object.entries(x)\<close>: \<open>undefined\<close> and \<open>null\<close> throw.\<close>

definition object_entries :: "json option \<Rightarrow> js_error + (string \<times> json) list" where
  "object_entries x =
     (case x of
        None \<Rightarrow> Inl TypeError
      | Some y \<Rightarrow> if y = JNull then Inl TypeError else Inr (entries y))"

text \<open>\<open>x.map(f)\<close>: only an array has the method; on \<open>undefined\<close>, on \<open>null\<close>
  and on every other parsed value the call throws.\<close>

fun as_array :: "json option \<Rightarrow> js_error + json list" where
  "as_array (Some (JArr xs)) = Inr xs"
| "as_array x = Inl TypeError"

text \<open>Whether \<open>x.toLocaleString()\<close> returns, for a value that is not \<open>null\<close>. A
  parsed value holds no function, so a property \<open>toLocaleString\<close> of an object's
  own hides the inherited method behind something that cannot be called; the
  inherited method of an object calls \<open>toString\<close>, which a property of the object's
  own hides in the same way; and the method of an array calls \<open>toLocaleString\<close> on
  every element that is not \<open>null\<close>.\<close>

fun localizable :: "json \<Rightarrow> bool" where
  "localizable (JObj kvs) = (map_of kvs ''toLocaleString'' = None \<and> map_of kvs ''toString'' = None)"
| "localizable (JArr xs) = list_all localizable xs"
| "localizable x = True"

text \<open>\<open>x.toLocaleString()\<close>: \<open>undefined\<close> and \<open>null\<close> throw; the result is a
  string.\<close>

definition toLocaleString_call :: "json option \<Rightarrow> js_error + unit" where
  "toLocaleString_call x =
     (case x of
        None \<Rightarrow> Inl TypeError
      | Some y \<Rightarrow> if y \<noteq> JNull \<and> localizable y then Inr () else Inl TypeError)"

text \<open>Whether a value can be converted to a primitive value, which a comparison
  with a number does first: an object is converted by the inherited \<open>toString\<close>,
  unless a property \<open>toString\<close> of its own hides it, and an array by converting
  every element that is not \<open>null\<close>.\<close>

fun convertible :: "json \<Rightarrow> bool" where
  "convertible (JObj kvs) = (map_of kvs ''toString'' = None)"
| "convertible (JArr xs) = list_all convertible xs"
| "convertible x = True"

text \<open>\<open>x >= c\<close> for a number \<open>c\<close>, as far as it can throw: \<open>undefined\<close> is converted
  to NaN, and a value that cannot be converted throws.\<close>

definition compare_call :: "json option \<Rightarrow> js_error + unit" where
  "compare_call x =
     (case x of
        None \<Rightarrow> Inr ()
      | Some y \<Rightarrow> if convertible y then Inr () else Inl TypeError)"

text \<open>What React accepts as a child: strings and numbers are shown, \<open>null\<close>,
  \<open>undefined\<close> and booleans show nothing, an array shows its elements, and an
  object makes the render throw (``Objects are not valid as a React child'').\<close>

fun valid_child :: "json \<Rightarrow> bool" where
  "valid_child (JObj kvs) = False"
| "valid_child (JArr xs) = list_all valid_child xs"
| "valid_child x = True"

definition renderable :: "json option \<Rightarrow> bool" where
  "renderable x = (case x of None \<Rightarrow> True | Some y \<Rightarrow> valid_child y)"

text \<open>The status as \<open>getStatusColor\<close> and \<open>getStatusText\<close> see it: their \<open>switch\<close>
  distinguishes strings only.\<close>

fun as_status :: "json option \<Rightarrow> string option" where
  "as_status (Some (JStr s)) = Some s"
| "as_status x = None"

text \<open>Sequencing of evaluations that can throw.\<close>

definition and_then :: "'e + 'a \<Rightarrow> ('a \<Rightarrow> 'e + 'b) \<Rightarrow> 'e + 'b" where
  "and_then m f = (case m of Inl e \<Rightarrow> Inl e | Inr v \<Rightarrow> f v)"

text \<open>The two analysis components whose render is followed on the parsed response:
  UnifiedDemographicAnalysis.js with its state \<open>selectedAnalysisType\<close> and
  \<open>selectedValue\<close>, and the education analysis component.\<close>

datatype component = UnifiedAnalysis analysis_type string | EducationAnalysis

text \<open>The panel of one outcome as an element: its key, whether it is the chart
  panel, the status colour and label, the rows given to the chart (each item with
  the \<open>name\<close> added to it) and, in document order, the children that are values of
  the response. Children that are strings or numbers computed by the component
  (the indicator label, the formatted population, the number of rows) are always
  accepted by React and are left out.\<close>

record jpanel =
  jp_key :: string
  jp_chart :: bool
  jp_status_color :: string
  jp_status_text :: string
  jp_rows :: "(json \<times> json option) list"
  jp_children :: "json option list"

text \<open>The score the indicator of a chart panel is computed from:
  \<open>similarity_score || overlap_score || 1.0\<close> in UnifiedDemographicAnalysis.js,
  \<open>similarity_score\<close> in the education component.\<close>

definition panel_score :: "component \<Rightarrow> json \<Rightarrow> json option" where
  "panel_score c distributionData =
     (case c of
        UnifiedAnalysis selectedAnalysisType selectedValue \<Rightarrow>
          or_js (or_js (get distributionData ''similarity_score'')
                   (get distributionData ''overlap_score'')) (Some (JNum 1))
      | EducationAnalysis \<Rightarrow> get distributionData ''similarity_score'')"

text \<open>The children of the chart panel: the outcome's name, the requested value,
  the matched category, the explanation and the data source.\<close>

definition chart_children :: "component \<Rightarrow> json \<Rightarrow> json \<Rightarrow> json option list" where
  "chart_children c analysisData distributionData =
     (case c of
        UnifiedAnalysis selectedAnalysisType selectedValue \<Rightarrow>
          [get distributionData ''name'',
           or_js (get analysisData (''target_'' @ type_key selectedAnalysisType))
             (Some (JStr selectedValue)),
           or_js (get distributionData (''matched_'' @ type_key selectedAnalysisType))
            (or_js (get distributionData ''matched_gender'')
              (or_js (get distributionData ''matched_income'')
                (or_js (get distributionData ''matched_education'')
                  (or_js (get distributionData ''matched_age_range'')
                    (Some (JStr ''Unknown'')))))),
           or_js (get distributionData (type_key selectedAnalysisType @ ''_explanation''))
            (or_js (get distributionData ''gender_explanation'')
              (or_js (get distributionData ''income_explanation'')
                (or_js (get distributionData ''education_explanation'')
                  (or_js (get distributionData ''range_explanation'')
                    (Some (JStr ''Matched'')))))),
           or_js (get distributionData ''data_source'') (Some (JStr ''Unknown''))]
      | EducationAnalysis \<Rightarrow>
          [get distributionData ''name'',
           get analysisData ''target_education'',
           get distributionData ''matched_education'',
           get distributionData ''education_explanation'',
           or_js (get distributionData ''data_source'') (Some (JStr ''Unknown''))])"

text \<open>The children of the failure panel: the outcome's name and
  \<open>distributionData.error || 'Unable to retrieve data'\<close>; in the education component
  also \<open>distributionData.matched_education && (... Best match found:
  {distributionData.matched_education} ...)\<close>, which shows the value when it is
  truthy and is the falsy value itself otherwise.\<close>

definition failed_children :: "component \<Rightarrow> json \<Rightarrow> json option list" where
  "failed_children c distributionData =
     [get distributionData ''name'',
      or_js (get distributionData ''error'') (Some (JStr ''Unable to retrieve data''))]
     @ (case c of
          UnifiedAnalysis selectedAnalysisType selectedValue \<Rightarrow> []
        | EducationAnalysis \<Rightarrow> [get distributionData ''matched_education''])"

text \<open>\<open>renderDistributionChart\<close> on a parsed outcome, in the order of evaluation:
  \<open>distributionData.status\<close>, then
  \<open>distributionData.conditional_distribution.data.map(item => ({...item, name:
  item.category}))\<close>, then the comparisons of the score with the thresholds of the
  indicator, then the element, in which
  \<open>distributionData.total_population.toLocaleString()\<close> is called. The indicator
  itself, a label and a colour computed from a score that is a number, is in the
  typed \<open>renderDistributionChart\<close>. Once
  \<open>distributionData.status\<close> has been read the outcome is not \<open>null\<close>, and its other
  properties are read with \<open>get\<close>.\<close>

definition renderDistributionChart_json ::
  "component \<Rightarrow> json \<Rightarrow> string \<Rightarrow> json \<Rightarrow> js_error + jpanel option" where
  "renderDistributionChart_json c analysisData distributionKey distributionData =
     and_then (member distributionData ''status'') (\<lambda>st.
       if st \<noteq> Some (JStr ''success'') then Inr None
       else
         and_then (member distributionData ''conditional_distribution'') (\<lambda>cd.
         and_then (member_opt cd ''data'') (\<lambda>dt.
         and_then (as_array dt) (\<lambda>items.
         and_then (sequence (map (\<lambda>i. and_then (member i ''category'') (\<lambda>n. Inr (i, n)))
                               items)) (\<lambda>chartData.
         and_then (compare_call (panel_score c distributionData)) (\<lambda>indicator.
         and_then (toLocaleString_call (get distributionData ''total_population'')) (\<lambda>u.
           Inr (Some \<lparr>jp_key = distributionKey, jp_chart = True,
                      jp_status_color = getStatusColor (as_status st),
                      jp_status_text = getStatusText (as_status st),
                      jp_rows = chartData,
                      jp_children = chart_children c analysisData distributionData\<rparr>))))))))"

text \<open>\<open>renderFailedDistribution\<close> on a parsed outcome; its first read is
  \<open>distributionData.name\<close>.\<close>

definition renderFailedDistribution_json ::
  "component \<Rightarrow> string \<Rightarrow> json \<Rightarrow> js_error + jpanel option" where
  "renderFailedDistribution_json c distributionKey distributionData =
     and_then (member distributionData ''name'') (\<lambda>nm.
       Inr (Some \<lparr>jp_key = distributionKey, jp_chart = False,
                  jp_status_color = getStatusColor (as_status (get distributionData ''status'')),
                  jp_status_text = getStatusText (as_status (get distributionData ''status'')),
                  jp_rows = [],
                  jp_children = failed_children c distributionData\<rparr>))"

text \<open>The function mapped over the entries of \<open>distributions\<close>:
  \<open>([key, data]) => data.status === 'success' ? renderDistributionChart(key, data) :
  renderFailedDistribution(key, data)\<close>.\<close>

definition render_entry :: "component \<Rightarrow> json \<Rightarrow> string \<times> json \<Rightarrow> js_error + jpanel option" where
  "render_entry c analysisData e =
     (case e of (key, d) \<Rightarrow>
        and_then (member d ''status'') (\<lambda>st.
          if st = Some (JStr ''success'')
          then renderDistributionChart_json c analysisData key d
          else renderFailedDistribution_json c key d))"

text \<open>\<open>Object.entries(analysisData.distributions).map(...)\<close>.\<close>

definition render_distributions_json ::
  "component \<Rightarrow> json \<Rightarrow> js_error + jpanel option list" where
  "render_distributions_json c analysisData =
     and_then (member analysisData ''distributions'') (\<lambda>ds.
     and_then (object_entries ds) (\<lambda>es.
       sequence (map (render_entry c analysisData) es)))"

text \<open>The children of the summary block that are values of the response: the
  target (the state \<open>selectedValue\<close> in UnifiedDemographicAnalysis.js,
  \<open>analysisData.target_education\<close> in the education component), then
  \<open>{analysisData.metadata.successful_retrievals} of
  {analysisData.metadata.total_distributions}\<close>, then
  \<open>analysisData.location_details?.county_name || 'Unknown'\<close> and the same for
  \<open>state_name\<close>. The two counts are shown as read.\<close>

definition summary_list ::
  "component \<Rightarrow> json \<Rightarrow> json option \<Rightarrow> json option \<Rightarrow> json option list" where
  "summary_list c analysisData s t =
     [case c of
        UnifiedAnalysis selectedAnalysisType selectedValue \<Rightarrow> Some (JStr selectedValue)
      | EducationAnalysis \<Rightarrow> get analysisData ''target_education'',
      s, t,
      or_js (get_opt (get analysisData ''location_details'') ''county_name'')
        (Some (JStr ''Unknown'')),
      or_js (get_opt (get analysisData ''location_details'') ''state_name'')
        (Some (JStr ''Unknown''))]"

definition summary_children :: "component \<Rightarrow> json \<Rightarrow> js_error + json option list" where
  "summary_children c analysisData =
     and_then (member analysisData ''metadata'') (\<lambda>m.
     and_then (member_opt m ''successful_retrievals'') (\<lambda>s.
     and_then (member_opt m ''total_distributions'') (\<lambda>t.
       Inr (summary_list c analysisData s t))))"

definition panel_children :: "jpanel option \<Rightarrow> json option list" where
  "panel_children p = (case p of None \<Rightarrow> [] | Some q \<Rightarrow> jp_children q)"

text \<open>The block \<open>{analysisData && !loading && (...)}\<close> of the two components, inside
  \<open>selectedLocation ? ... : ...\<close>: nothing of it is rendered (\<open>None\<close>) without a
  selected location, while \<open>analysisData\<close> is absent or falsy, and while loading.
  Otherwise the summary and the panel list are evaluated, where a read of
  \<open>undefined\<close> or \<open>null\<close> throws; then React renders the elements, and throws at a
  child that is an object. Either throw ends the render of the whole component.
  What the chart library does with the rows it is given is outside the model.\<close>

definition analysis_block ::
  "component \<Rightarrow> bool \<Rightarrow> json option \<Rightarrow> bool \<Rightarrow>
     js_error + (json option list \<times> jpanel option list) option" where
  "analysis_block c selectedLocation analysisData loading =
     (if \<not> selectedLocation then Inr None
      else case analysisData of
        None \<Rightarrow> Inr None
      | Some a \<Rightarrow>
         if \<not> truthy a \<or> loading then Inr None
         else
           and_then (summary_children c a) (\<lambda>summary.
           and_then (render_distributions_json c a) (\<lambda>panels.
             if list_all renderable (summary @ concat (map panel_children panels))
             then Inr (Some (summary, panels))
             else Inl InvalidChild)))"

text \<open>A success outcome carries what its chart panel reads without a guard:
  \<open>conditional_distribution.data\<close>, an array without \<open>null\<close> items, and a
  \<open>total_population\<close> that is not \<open>null\<close> and on which \<open>toLocaleString()\<close>
  returns (as it does on every number and string).\<close>

definition carries_chart_data :: "json \<Rightarrow> bool" where
  "carries_chart_data d \<longleftrightarrow>
     (case get_opt (get d ''conditional_distribution'') ''data'' of
        Some (JArr items) \<Rightarrow> JNull \<notin> set items
      | _ \<Rightarrow> False)
     \<and> (case get d ''total_population'' of None \<Rightarrow> False | Some tp \<Rightarrow> tp \<noteq> JNull \<and> localizable tp)"

text \<open>The score of a success outcome can be compared with the thresholds of the
  indicator (as every number, string and absent score can).\<close>

definition comparable_score :: "component \<Rightarrow> json \<Rightarrow> bool" where
  "comparable_score c d \<longleftrightarrow>
     (case panel_score c d of None \<Rightarrow> True | Some s \<Rightarrow> convertible s)"

text \<open>The children of the panel an outcome is given.\<close>

definition entry_children :: "component \<Rightarrow> json \<Rightarrow> json \<Rightarrow> json option list" where
  "entry_children c analysisData d =
     (if get d ''status'' = Some (JStr ''success'') then chart_children c analysisData d
      else failed_children c d)"

text \<open>An outcome can be rendered when it is not \<open>null\<close>, none of the children of
  its panel is or holds an object, and, if its status is \<open>success\<close>, it carries what
  the chart panel reads and a score that can be compared.\<close>

definition renders_entry :: "component \<Rightarrow> json \<Rightarrow> json \<Rightarrow> bool" where
  "renders_entry c analysisData d \<longleftrightarrow>
     d \<noteq> JNull
     \<and> (get d ''status'' = Some (JStr ''success'') \<longrightarrow>
          carries_chart_data d \<and> comparable_score c d)
     \<and> list_all renderable (entry_children c analysisData d)"

text \<open>The summary can be rendered when \<open>metadata\<close> is there and not \<open>null\<close> and none
  of the summary's children is or holds an object.\<close>

definition renders_summary :: "component \<Rightarrow> json \<Rightarrow> bool" where
  "renders_summary c analysisData \<longleftrightarrow>
     (case get analysisData ''metadata'' of
        None \<Rightarrow> False
      | Some m \<Rightarrow>
          m \<noteq> JNull
          \<and> list_all renderable
              (summary_list c analysisData (get m ''successful_retrievals'')
                 (get m ''total_distributions'')))"

text \<open>A response is well formed for a component when its summary can be rendered,
  \<open>distributions\<close> is there and not \<open>null\<close>, and every outcome can be rendered.\<close>

definition well_formed :: "component \<Rightarrow> json \<Rightarrow> bool" where
  "well_formed c analysisData \<longleftrightarrow>
     renders_summary c analysisData
     \<and> (case get analysisData ''distributions'' of
          None \<Rightarrow> False
        | Some ds \<Rightarrow>
            ds \<noteq> JNull \<and> list_all (\<lambda>(key, d). renders_entry c analysisData d) (entries ds))"

text \<open>What the panel of an entry shows: the entry's key, the colour and the label
  of the outcome's status and, for the status \<open>success\<close>, the chart panel with the
  outcome's rows and the children of the chart panel; for every other status, the
  failure panel, whose children are the outcome's name and its error text
  (\<open>Unable to retrieve data\<close> when it carries none) and, in the education component,
  the best match.\<close>

definition shows_entry :: "component \<Rightarrow> json \<Rightarrow> string \<times> json \<Rightarrow> jpanel option \<Rightarrow> bool" where
  "shows_entry c analysisData e p =
     (case e of (key, d) \<Rightarrow>
       (case p of
          None \<Rightarrow> False
        | Some q \<Rightarrow>
            jp_key q = key
            \<and> (jp_chart q \<longleftrightarrow> get d ''status'' = Some (JStr ''success''))
            \<and> jp_status_color q = getStatusColor (as_status (get d ''status''))
            \<and> jp_status_text q = getStatusText (as_status (get d ''status''))
            \<and> (if jp_chart q
                then get_opt (get d ''conditional_distribution'') ''data''
                       = Some (JArr (map fst (jp_rows q)))
                     \<and> map snd (jp_rows q) = map (\<lambda>i. get i ''category'') (map fst (jp_rows q))
                     \<and> jp_children q = chart_children c analysisData d
                else jp_children q =
                       [get d ''name'',
                        or_js (get d ''error'') (Some (JStr ''Unable to retrieve data''))]
                       @ (case c of
                            UnifiedAnalysis selectedAnalysisType selectedValue \<Rightarrow> []
                          | EducationAnalysis \<Rightarrow> [get d ''matched_education'']))))"

text \<open>A typed outcome and a parsed one. \<open>parsed_as j d\<close> says that the parsed
  outcome \<open>j\<close> carries the properties of the typed outcome \<open>d\<close>, each with the
  value and the type \<open>d\<close> gives it, and no \<open>null\<close>; the properties read under a
  computed key are those of \<open>computed_keys\<close>.\<close>

definition json_of_item :: "dist_item \<Rightarrow> json" where
  "json_of_item i =
     JObj [(''category'', JStr (category i)), (''value'', JNum (value i)),
           (''percentage'', JNum (percentage i))]"

definition computed_keys :: "string list" where
  "computed_keys =
     map (\<lambda>t. ''matched_'' @ type_key t) [Age, Education, Income, Gender, Profession, Race]
     @ [''matched_age_range'']
     @ map (\<lambda>t. type_key t @ ''_explanation'') [Age, Education, Income, Gender, Profession, Race]
     @ [''range_explanation'']"

definition parsed_as :: "json \<Rightarrow> outcome \<Rightarrow> bool" where
  "parsed_as j d \<longleftrightarrow>
     j \<noteq> JNull
     \<and> get j ''status'' = map_option JStr (status d)
     \<and> get j ''name'' = map_option JStr (title d)
     \<and> get j ''error'' = map_option JStr (error d)
     \<and> get j ''data_source'' = map_option JStr (data_source d)
     \<and> get j ''similarity_score'' = map_option JNum (similarity_score d)
     \<and> get j ''overlap_score'' = map_option JNum (overlap_score d)
     \<and> list_all (\<lambda>k. get j k = map_option JStr (strs d k)) computed_keys
     \<and> get_opt (get j ''conditional_distribution'') ''data'' =
           map_option (\<lambda>xs. JArr (map json_of_item xs))
             (case conditional_distribution d of None \<Rightarrow> None | Some cd \<Rightarrow> data cd)
     \<and> get j ''total_population'' = map_option JNum (total_population d)"


section \<open>Category matcher and per-table step of the orchestrator\<close>

text \<open>The threshold of rule 5 of section 4.2 of the specification.\<close>

definition floor_threshold :: real where
  "floor_threshold = 15 / 100"

record match_result =
  mr_input :: string
  mr_matched :: string
  mr_score :: real
  mr_explanation :: string
  mr_no_match :: bool

text \<open>Modelled from the spec: the choice of the best-scoring candidate by the
  Category Matcher, whose code (the Flask backend) is not among the sources. The
  first of the candidates with the highest score is kept.\<close>

fun best :: "(string \<Rightarrow> real) \<Rightarrow> string \<Rightarrow> string list \<Rightarrow> string" where
  "best sc c [] = c"
| "best sc c (x # xs) = best sc (if sc c < sc x then x else c) xs"

text \<open>Modelled from the spec: \<open>match(inputString, candidateCategories)\<close> of the
  Category Matcher (section 4.2), whose code is not among the sources. \<open>rate\<close>
  stands for rules 1 to 4: the score and the explanation of the first rule that
  fires for the input and one candidate. The candidate list is \<open>c # cs\<close>; the
  specification does not say what is returned for an empty list. Rule 5: the best
  candidate is returned in every case, and the result is classified \<open>no_match\<close> when
  no candidate scores above the floor threshold.\<close>

definition match ::
  "(string \<Rightarrow> string \<Rightarrow> real \<times> string) \<Rightarrow> string \<Rightarrow> string \<Rightarrow> string list \<Rightarrow> match_result" where
  "match rate inputString c cs =
     (let b = best (\<lambda>x. fst (rate inputString x)) c cs
      in \<lparr>mr_input = inputString, mr_matched = b,
          mr_score = fst (rate inputString b),
          mr_explanation = snd (rate inputString b),
          mr_no_match = (\<not> floor_threshold < fst (rate inputString b))\<rparr>)"

text \<open>Modelled from the spec: the result of \<open>fetchRawTable\<close> (section 4.3), a
  collaborator outside the sources.\<close>

datatype 'tbl fetched = NotFound | UpstreamError | Table 'tbl

text \<open>Modelled from the spec: the per-table step FETCH, MATCH_LOCAL, CONDITION of
  the Unified Analysis Orchestrator (section 4.5) for the anchor variable
  \<open>education\<close>, whose code is not among the sources; the outcome is written with
  the property names the education component reads. \<open>local_categories\<close> is the
  table's own category list (section 4.1) and \<open>conditional\<close> the Distribution
  Calculator (section 4.4), giving the items and the total of the slice.\<close>

definition table_outcome ::
  "(string \<Rightarrow> string \<Rightarrow> real \<times> string) \<Rightarrow> ('tbl \<Rightarrow> string \<times> string list) \<Rightarrow>
   ('tbl \<Rightarrow> string \<Rightarrow> dist_item list \<times> real) \<Rightarrow> string \<Rightarrow> string \<Rightarrow> 'tbl fetched \<Rightarrow> outcome" where
  "table_outcome rate local_categories conditional ttl anchor_value f =
     (case f of
        NotFound \<Rightarrow> blank_outcome ttl ''no_data''
      | UpstreamError \<Rightarrow> blank_outcome ttl ''error''
      | Table t \<Rightarrow>
         (let r = match rate anchor_value (fst (local_categories t)) (snd (local_categories t));
              found = (\<lambda>k. if k = ''matched_education'' then Some (mr_matched r)
                            else if k = ''education_explanation'' then Some (mr_explanation r)
                            else None)
          in if mr_no_match r
             then (blank_outcome ttl ''no_match'')
                    \<lparr>similarity_score := Some (mr_score r), strs := found\<rparr>
             else (blank_outcome ttl ''success'')
                    \<lparr>similarity_score := Some (mr_score r), strs := found,
                     conditional_distribution :=
                       Some \<lparr>data = Some (fst (conditional t (mr_matched r)))\<rparr>,
                     total_population := Some (snd (conditional t (mr_matched r)))\<rparr>))"

section \<open>Sample inputs\<close>

definition sample_items :: "dist_item list" where
  "sample_items =
     [\<lparr>category = ''Male'', value = 30, percentage = 60\<rparr>,
      \<lparr>category = ''Female'', value = 20, percentage = 40\<rparr>]"

text \<open>A success outcome that carries neither \<open>similarity_score\<close> nor
  \<open>overlap_score\<close>.\<close>

definition unscored_success :: outcome where
  "unscored_success =
     (blank_outcome ''Gender'' ''success'')
       \<lparr>conditional_distribution := Some \<lparr>data = Some sample_items\<rparr>,
        total_population := Some 50\<rparr>"

definition scored_success :: outcome where
  "scored_success = unscored_success\<lparr>similarity_score := Some (9 / 10)\<rparr>"

text \<open>A success outcome and a failed one, as parsed values.\<close>

definition sample_success :: json where
  "sample_success =
     JObj [(''status'', JStr ''success''), (''name'', JStr ''Age''),
           (''conditional_distribution'',
              JObj [(''data'',
                 JArr [JObj [(''category'', JStr ''25 to 34 years''),
                             (''value'', JNum 30), (''percentage'', JNum 60)],
                       JObj [(''category'', JStr ''35 to 44 years''),
                             (''value'', JNum 20), (''percentage'', JNum 40)]])]),
           (''total_population'', JNum 50)]"

definition sample_failure :: json where
  "sample_failure =
     JObj [(''status'', JStr ''error''), (''name'', JStr ''Income''),
           (''error'', JStr ''Census API timeout'')]"

text \<open>A response with the property names the components read; the same response
  reporting more successful retrievals than distributions; and a response with the
  property names of the specification.\<close>

definition code_shaped_response :: json where
  "code_shaped_response =
     JObj [(''target_gender'', JStr ''Male''),
           (''metadata'', JObj [(''successful_retrievals'', JNum 1),
                               (''total_distributions'', JNum 2)]),
           (''distributions'', JObj [(''age'', sample_success), (''income'', sample_failure)])]"



text \<open>A response whose success outcome carries no \<open>conditional_distribution\<close>, and
  one whose failed outcome carries an object as its \<open>error\<close>.\<close>

definition incomplete_response :: json where
  "incomplete_response =
     JObj [(''target_gender'', JStr ''Male''),
           (''metadata'', JObj [(''successful_retrievals'', JNum 1),
                               (''total_distributions'', JNum 2)]),
           (''distributions'',
              JObj [(''age'', JObj [(''status'', JStr ''success''), (''name'', JStr ''Age'')]),
                    (''income'', sample_failure)])]"

definition object_error_response :: json where
  "object_error_response =
     JObj [(''target_gender'', JStr ''Male''),
           (''metadata'', JObj [(''successful_retrievals'', JNum 1),
                               (''total_distributions'', JNum 2)]),
           (''distributions'',
              JObj [(''age'', sample_success),
                    (''income'',
                       JObj [(''status'', JStr ''error''), (''name'', JStr ''Income''),
                             (''error'', JObj [(''message'', JStr ''Census API timeout'')])])])]"

definition sample_age_rows :: "dist_item list" where
  "sample_age_rows =
     [\<lparr>category = ''65 years and over'', value = 5, percentage = 10\<rparr>,
      \<lparr>category = ''Under 25 years'', value = 15, percentage = 30\<rparr>,
      \<lparr>category = ''45 to 64 years'', value = 10, percentage = 20\<rparr>,
      \<lparr>category = ''25 to 44 years'', value = 20, percentage = 40\<rparr>]"

definition sample_income_rows :: "dist_item list" where
  "sample_income_rows =
     [\<lparr>category = ''$200,000 or more'', value = 1, percentage = 25\<rparr>,
      \<lparr>category = ''Less than $10,000'', value = 3, percentage = 75\<rparr>]"

definition sample_joint :: joint_data where
  "sample_joint =
     \<lparr>age_marginal = Some sample_age_rows, income_marginal = Some sample_income_rows\<rparr>"

definition sample_trade_area :: "sw_item list" where
  "sample_trade_area =
     [\<lparr>category = ''Male'', population = 30\<rparr>, \<lparr>category = ''Female'', population = 10\<rparr>]"

text \<open>A scoring function under which no candidate reaches the floor threshold:
  ``Bachelor's degree'' scores 0.1 and every other candidate 0.05, whatever the
  input.\<close>

definition sample_rate :: "string \<Rightarrow> string \<Rightarrow> real \<times> string" where
  "sample_rate inputString c =
     (if c = ''Bachelor's degree'' then (1 / 10, ''token overlap'')
      else (5 / 100, ''token overlap''))"

section \<open>Basic facts\<close>

lemma ge_Some [simp]: "ge (Some v) c = (c \<le> v)"
  by (simp add: ge_def)

lemma ge_None [simp]: "ge None c = False"
  by (simp add: ge_def)

lemma sequence_map_Inr:
  "(\<forall>x\<in>set xs. \<exists>v. f x = Inr v) \<Longrightarrow> sequence (map f xs) = Inr (map (\<lambda>x. projr (f x)) xs)"
  by (induction xs) auto

lemma sequence_Inr_nth:
  "sequence ys = Inr vs \<Longrightarrow> length vs = length ys \<and> (\<forall>i<length ys. ys ! i = Inr (vs ! i))"
proof (induction ys arbitrary: vs)
  case Nil
  then show ?case by simp
next
  case (Cons y ys)
  from Cons.prems obtain v ws where y: "y = Inr v" and ws: "sequence ys = Inr ws"
    and vs: "vs = v # ws"
    by (auto split: sum.splits)
  from Cons.IH[OF ws] y vs show ?case
    by (auto simp: nth_Cons split: nat.splits)
qed

lemma and_then_Inr [simp]: "and_then (Inr v) f = f v"
  by (simp add: and_then_def)

lemma and_then_Inl [simp]: "and_then (Inl e) f = Inl e"
  by (simp add: and_then_def)

lemma member_null [simp]: "member JNull k = Inl TypeError"
  by (simp add: member_def)

lemma member_get: "x \<noteq> JNull \<Longrightarrow> member x k = Inr (get x k)"
  by (simp add: member_def)

section \<open>Status colours and labels\<close>

lemma table_outcome_status:
  "status (table_outcome rate local_categories conditional ttl v f) \<in> Some ` statuses"
  by (cases f) (simp_all add: table_outcome_def blank_outcome_def statuses_def Let_def)

text \<open>
  C6. Every per-table outcome carries a status drawn from success, no_data,
  no_match, error (for the outcomes the per-table step of the orchestrator builds,
  that step being modelled from the specification). \<open>getStatusColor\<close> and
  \<open>getStatusText\<close> are total: on the four statuses they take four distinct colours
  and four distinct labels, and every other input, an absent status included, is
  mapped to the default colour \<open>#6b7280\<close> and the label \<open>? Unknown\<close>.
\<close>

theorem status_mappings_total:
  "status (table_outcome rate local_categories conditional ttl v f) \<in> Some ` statuses
   \<and> inj_on getStatusColor (Some ` statuses)
   \<and> inj_on getStatusText (Some ` statuses)
   \<and> (\<forall>s. s \<notin> Some ` statuses \<longrightarrow>
          getStatusColor s = ''#6b7280'' \<and> getStatusText s = ''? Unknown'')"
proof (intro conjI allI impI)
  show "status (table_outcome rate local_categories conditional ttl v f) \<in> Some ` statuses"
    by (rule table_outcome_status)
  show "inj_on getStatusColor (Some ` statuses)"
    by (auto simp: inj_on_def statuses_def getStatusColor_def)
  show "inj_on getStatusText (Some ` statuses)"
    by (auto simp: inj_on_def statuses_def getStatusText_def)
next
  fix s :: "string option"
  assume "s \<notin> Some ` statuses"
  then have "s \<noteq> Some ''success''" "s \<noteq> Some ''no_data''" "s \<noteq> Some ''no_match''"
    "s \<noteq> Some ''error''"
    by (auto simp: statuses_def)
  then show "getStatusColor s = ''#6b7280''" "getStatusText s = ''? Unknown''"
    by (simp_all add: getStatusColor_def getStatusText_def)
qed

theorem status_mappings_total_witness:
  "getStatusColor (Some ''pending'') = ''#6b7280''
   \<and> getStatusText None = ''? Unknown''
   \<and> getStatusColor (Some ''success'') \<noteq> getStatusColor (Some ''error'')
   \<and> getStatusText (Some ''no_data'') \<noteq> getStatusText (Some ''no_match'')
   \<and> status (table_outcome sample_rate (\<lambda>t. (''Bachelor's degree'', [''Some college'']))
         (\<lambda>t c. (sample_items, 50)) ''Age'' ''xyz-nonsense'' (Table ())) = Some ''no_match''"
proof -
  note t = status_mappings_total [of sample_rate "\<lambda>t. (''Bachelor's degree'', [''Some college''])"
      "\<lambda>t c. (sample_items, 50)" "''Age''" "''xyz-nonsense''" "Table ()"]
  have a: "Some ''pending'' \<notin> Some ` statuses" "None \<notin> Some ` statuses"
    by (auto simp: statuses_def)
  have c: "Some ''success'' \<in> Some ` statuses" "Some ''error'' \<in> Some ` statuses"
    "Some ''no_data'' \<in> Some ` statuses" "Some ''no_match'' \<in> Some ` statuses"
    by (simp_all add: statuses_def)
  from t a have 1: "getStatusColor (Some ''pending'') = ''#6b7280''"
    "getStatusText None = ''? Unknown''" by blast+
  from t have ic: "inj_on getStatusColor (Some ` statuses)"
    and it: "inj_on getStatusText (Some ` statuses)" by blast+
  from inj_onD[OF ic _ c(1) c(2)]
  have 2: "getStatusColor (Some ''success'') \<noteq> getStatusColor (Some ''error'')" by auto
  from inj_onD[OF it _ c(3) c(4)]
  have 3: "getStatusText (Some ''no_data'') \<noteq> getStatusText (Some ''no_match'')" by auto
  have 4: "status (table_outcome sample_rate (\<lambda>t. (''Bachelor's degree'', [''Some college'']))
         (\<lambda>t c. (sample_items, 50)) ''Age'' ''xyz-nonsense'' (Table ())) = Some ''no_match''"
    by (simp add: table_outcome_def match_def sample_rate_def floor_threshold_def
        blank_outcome_def Let_def)
  from 1 2 3 4 show ?thesis by simp
qed

section \<open>Quality tiers\<close>

text \<open>
  C9, as stated, fails: at the score 0.55 the education analysis shows the fourth
  tier while the unified and the income analysis show the third.
\<close>

theorem tiers_disagree_counterexample:
  "(0::real) \<le> 55 / 100 \<and> (55 / 100 :: real) \<le> 1
   \<and> tier (getSimilarityIndicatorEdu (Some (55 / 100))) = 4
   \<and> tier (getSimilarityIndicator (Some (55 / 100))) = 3
   \<and> tier (getOverlapIndicator (Some (55 / 100))) = 3"
  by (simp add: getSimilarityIndicator_def getSimilarityIndicatorEdu_def
      getOverlapIndicator_def tier_def)

text \<open>
  C9, amended. The unified and the income analysis place every score in the same
  tier (boundaries 0.95, 0.8, 0.5, 0.3). The education analysis shares the two upper
  boundaries and uses 0.6 and 0.4 for the two lower ones, so it agrees with the other
  two exactly on the scores outside the intervals from 0.5 to 0.6 and from 0.3 to 0.4
  (lower end included, upper end excluded).
\<close>

theorem tiers_agree:
  "tier (getSimilarityIndicator (Some s)) = tier (getOverlapIndicator (Some s)) \<and>
   (tier (getSimilarityIndicatorEdu (Some s)) = tier (getSimilarityIndicator (Some s))
      \<longleftrightarrow> \<not> (5 / 10 \<le> s \<and> s < 6 / 10) \<and> \<not> (3 / 10 \<le> s \<and> s < 4 / 10))"
  by (auto simp: getSimilarityIndicator_def getOverlapIndicator_def
      getSimilarityIndicatorEdu_def tier_def)

theorem tiers_agree_witness:
  "tier (getSimilarityIndicator (Some (7 / 10))) = tier (getOverlapIndicator (Some (7 / 10)))
   \<and> tier (getSimilarityIndicatorEdu (Some (7 / 10))) = tier (getSimilarityIndicator (Some (7 / 10)))
   \<and> tier (getSimilarityIndicatorEdu (Some (35 / 100))) \<noteq> tier (getSimilarityIndicator (Some (35 / 100)))"
  using tiers_agree [of "7 / 10"] tiers_agree [of "35 / 100"] by simp

section \<open>Chart panels of typed outcomes\<close>

lemma chart_complete:
  "status d = Some ''success'' \<Longrightarrow> complete d \<Longrightarrow>
   \<exists>cp. renderDistributionChart ty v tg k d = Inr (Some (ChartPanel cp)) \<and> panel_key cp = k
        \<and> panel_title cp = title d
        \<and> panel_indicator cp = getSimilarityIndicator (effective_score d)
        \<and> (case conditional_distribution d of
              None \<Rightarrow> False
            | Some cd \<Rightarrow> data cd = Some (map item (chartData cp)))"
  by (auto simp: renderDistributionChart_def complete_def Let_def comp_def split: option.splits)

lemma chart_edu_complete:
  "status d = Some ''success'' \<Longrightarrow> complete d \<Longrightarrow>
   \<exists>cp. renderDistributionChartEdu tg k d = Inr (Some (ChartPanel cp)) \<and> panel_key cp = k
        \<and> panel_title cp = title d
        \<and> panel_indicator cp = getSimilarityIndicatorEdu (similarity_score d)
        \<and> (case conditional_distribution d of
              None \<Rightarrow> False
            | Some cd \<Rightarrow> data cd = Some (map item (chartData cp)))"
  by (auto simp: renderDistributionChartEdu_def complete_def Let_def comp_def split: option.splits)

text \<open>A success outcome that is not complete makes its chart panel throw, in both
  components.\<close>

lemma chart_incomplete_throws:
  "status d = Some ''success'' \<Longrightarrow> \<not> complete d \<Longrightarrow>
   renderDistributionChart ty v tg k d = Inl TypeError
   \<and> renderDistributionChartEdu tg k d = Inl TypeError"
  by (auto simp: renderDistributionChart_def renderDistributionChartEdu_def complete_def Let_def
      split: option.splits)

section \<open>The score an outcome is treated as having\<close>

text \<open>
  C2, as stated, fails: a success outcome that carries neither a similarity nor an
  overlap score is treated as having score 1.0, and its panel shows ``Perfect Match''.
\<close>

theorem unscored_outcome_counterexample:
  "similarity_score unscored_success = None
   \<and> overlap_score unscored_success = None
   \<and> effective_score unscored_success = Some 1
   \<and> renderDistributionChart Gender ''Male'' None ''gender'' unscored_success =
       Inr (Some (ChartPanel
         \<lparr>panel_key = ''gender'', panel_title = Some ''Gender'',
          panel_indicator = \<lparr>label = ''Perfect Match'', color = ''#10b981''\<rparr>,
          panel_status_color = ''#10b981'',
          panel_status_text = [CHR 0xE2, CHR 0x9C, CHR 0x93] @ '' Available'',
          requested = Some ''Male'', matched = Some ''Unknown'',
          explanation = Some ''Matched'', population_shown = 50, categories = 2,
          chartData =
            [\<lparr>item = \<lparr>category = ''Male'', value = 30, percentage = 60\<rparr>, name = ''Male''\<rparr>,
             \<lparr>item = \<lparr>category = ''Female'', value = 20, percentage = 40\<rparr>, name = ''Female''\<rparr>],
          source_shown = Some ''Unknown''\<rparr>))"
  by (simp add: unscored_success_def blank_outcome_def effective_score_def or_num_def
      renderDistributionChart_def getSimilarityIndicator_def getStatusColor_def
      getStatusText_def or_str_def sample_items_def Let_def)

text \<open>
  C2, amended. In the unified analysis an outcome is treated as having the non-zero
  similarity score it carries, else the non-zero overlap score it carries, and the
  score 1.0 when it carries neither score; it is classified ``Perfect Match'' exactly
  when the score it is treated as having is at least 0.95, and that classification is
  the one its chart panel shows. So an outcome carrying a non-zero score below 0.95 is
  never treated as 1.0 nor put in the top tier.
\<close>

theorem score_treatment:
  "(similarity_score d = Some s \<and> s \<noteq> 0 \<longrightarrow> effective_score d = Some s)
   \<and> (similarity_score d = None \<and> overlap_score d = Some s \<and> s \<noteq> 0 \<longrightarrow>
        effective_score d = Some s)
   \<and> (similarity_score d = None \<and> overlap_score d = None \<longrightarrow> effective_score d = Some 1)
   \<and> (label (getSimilarityIndicator (effective_score d)) = ''Perfect Match''
        \<longleftrightarrow> ge (effective_score d) (95 / 100))
   \<and> (status d = Some ''success'' \<and> complete d \<longrightarrow>
        (\<exists>cp. renderDistributionChart ty v tg k d = Inr (Some (ChartPanel cp))
             \<and> panel_indicator cp = getSimilarityIndicator (effective_score d)))"
proof (intro conjI impI)
  show "label (getSimilarityIndicator (effective_score d)) = ''Perfect Match''
        \<longleftrightarrow> ge (effective_score d) (95 / 100)"
    by (simp add: getSimilarityIndicator_def)
next
  assume "status d = Some ''success'' \<and> complete d"
  with chart_complete[of d ty v tg k]
  show "\<exists>cp. renderDistributionChart ty v tg k d = Inr (Some (ChartPanel cp))
             \<and> panel_indicator cp = getSimilarityIndicator (effective_score d)"
    by blast
qed (simp_all add: effective_score_def or_num_def)

theorem score_treatment_witness:
  "similarity_score scored_success = Some (9 / 10) \<and> (9 / 10 :: real) \<noteq> 0
   \<and> effective_score scored_success = Some (9 / 10)
   \<and> label (getSimilarityIndicator (effective_score scored_success)) \<noteq> ''Perfect Match''
   \<and> status scored_success = Some ''success'' \<and> complete scored_success
   \<and> (\<exists>cp. renderDistributionChart Gender ''Male'' None ''gender'' scored_success
               = Inr (Some (ChartPanel cp))
            \<and> label (panel_indicator cp) = ''Very Good'')"
proof -
  have a: "similarity_score scored_success = Some (9 / 10) \<and> (9 / 10 :: real) \<noteq> 0"
    by (simp add: scored_success_def)
  have b: "status scored_success = Some ''success'' \<and> complete scored_success"
    by (simp add: scored_success_def unscored_success_def blank_outcome_def complete_def)
  note t = score_treatment [of scored_success "9 / 10" Gender "''Male''" None "''gender''"]
  from t a have e: "effective_score scored_success = Some (9 / 10)" by blast
  from t have "label (getSimilarityIndicator (effective_score scored_success)) = ''Perfect Match''
        \<longleftrightarrow> ge (effective_score scored_success) (95 / 100)" by blast
  with e have p: "label (getSimilarityIndicator (effective_score scored_success)) \<noteq> ''Perfect Match''"
    by simp
  from t b obtain cp where
    cp: "renderDistributionChart Gender ''Male'' None ''gender'' scored_success
               = Inr (Some (ChartPanel cp))"
      "panel_indicator cp = getSimilarityIndicator (effective_score scored_success)"
    by blast
  from cp(2) e have "label (panel_indicator cp) = ''Very Good''"
    by (simp add: getSimilarityIndicator_def)
  with cp(1) a b e p show ?thesis by blast
qed

section \<open>The analysis block on the parsed response\<close>


lemma get_not_null: "get x k = Some v \<Longrightarrow> x \<noteq> JNull \<and> truthy x"
  by (cases x) simp_all

lemma chart_rows:
  "sequence (map (\<lambda>i. and_then (member i ''category'') (\<lambda>n. Inr (i, n))) items) =
     (if JNull \<in> set items then Inl TypeError
      else Inr (map (\<lambda>i. (i, get i ''category'')) items))"
  by (induction items) (auto simp: member_def)

text \<open>The chart panel of a success outcome: it throws unless the outcome carries
  what the panel reads.\<close>

lemma chart_json:
  assumes "get d ''status'' = Some (JStr ''success'')"
  shows "renderDistributionChart_json c a k d =
     (if carries_chart_data d \<and> comparable_score c d
      then Inr (Some \<lparr>jp_key = k, jp_chart = True,
                      jp_status_color = getStatusColor (Some ''success''),
                      jp_status_text = getStatusText (Some ''success''),
                      jp_rows = (case get_opt (get d ''conditional_distribution'') ''data'' of
                                   Some (JArr items) \<Rightarrow> map (\<lambda>i. (i, get i ''category'')) items
                                 | _ \<Rightarrow> []),
                      jp_children = chart_children c a d\<rparr>)
      else Inl TypeError)"
proof -
  from assms have nn: "d \<noteq> JNull" using get_not_null by blast
  show ?thesis
  proof (cases "get d ''conditional_distribution''")
    case None
    with nn assms show ?thesis
      by (simp add: renderDistributionChart_json_def member_get member_opt_def
          carries_chart_data_def get_opt_def)
  next
    case (Some cd)
    show ?thesis
    proof (cases "cd = JNull")
      case True
      with nn assms Some show ?thesis
        by (simp add: renderDistributionChart_json_def member_get member_opt_def
            carries_chart_data_def get_opt_def)
    next
      case False
      show ?thesis
      proof (cases "get cd ''data''")
        case None
        with nn assms Some False show ?thesis
          by (simp add: renderDistributionChart_json_def member_get member_opt_def
            carries_chart_data_def get_opt_def)
      next
        case dt: (Some v)
        with nn assms Some False show ?thesis
          by (cases v; cases "get d ''total_population''"; cases "panel_score c d")
             (simp_all add: renderDistributionChart_json_def member_get member_opt_def
              carries_chart_data_def get_opt_def chart_rows toLocaleString_call_def
              compare_call_def comparable_score_def)
      qed
    qed
  qed
qed

lemma failed_json:
  "d \<noteq> JNull \<Longrightarrow> renderFailedDistribution_json c k d =
     Inr (Some \<lparr>jp_key = k, jp_chart = False,
                jp_status_color = getStatusColor (as_status (get d ''status'')),
                jp_status_text = getStatusText (as_status (get d ''status'')),
                jp_rows = [], jp_children = failed_children c d\<rparr>)"
  by (simp add: renderFailedDistribution_json_def member_get)

lemma render_entry_null: "render_entry c a (k, JNull) = Inl TypeError"
  by (simp add: render_entry_def)

lemma render_entry_failed:
  "d \<noteq> JNull \<Longrightarrow> get d ''status'' \<noteq> Some (JStr ''success'') \<Longrightarrow>
   render_entry c a (k, d) = renderFailedDistribution_json c k d"
  by (simp add: render_entry_def member_get)

lemma render_entry_chart:
  "get d ''status'' = Some (JStr ''success'') \<Longrightarrow>
   render_entry c a (k, d) = renderDistributionChart_json c a k d"
  using get_not_null[of d "''status''"] by (simp add: render_entry_def member_get)

text \<open>An entry that is given a panel.\<close>

lemma render_entry_Inr:
  assumes "render_entry c a (k, d) = Inr p"
  shows "d \<noteq> JNull
         \<and> (get d ''status'' = Some (JStr ''success'') \<longrightarrow>
              carries_chart_data d \<and> comparable_score c d)
         \<and> shows_entry c a (k, d) p \<and> panel_children p = entry_children c a d"
proof -
  from assms have nn: "d \<noteq> JNull" by (auto simp: render_entry_null)
  show ?thesis
  proof (cases "get d ''status'' = Some (JStr ''success'')")
    case True
    from assms render_entry_chart[OF True] chart_json[OF True, of c a k]
    have ccd: "carries_chart_data d" and cs: "comparable_score c d"
      and p: "p = Some \<lparr>jp_key = k, jp_chart = True,
                      jp_status_color = getStatusColor (Some ''success''),
                      jp_status_text = getStatusText (Some ''success''),
                      jp_rows = (case get_opt (get d ''conditional_distribution'') ''data'' of
                                   Some (JArr items) \<Rightarrow> map (\<lambda>i. (i, get i ''category'')) items
                                 | _ \<Rightarrow> []),
                      jp_children = chart_children c a d\<rparr>"
      by (auto split: if_splits)
    from ccd obtain items where
      items: "get_opt (get d ''conditional_distribution'') ''data'' = Some (JArr items)"
      by (auto simp: carries_chart_data_def split: option.splits json.splits)
    from nn True ccd cs p items show ?thesis
      by (simp add: shows_entry_def panel_children_def entry_children_def comp_def)
  next
    case False
    from assms render_entry_failed[OF nn False] failed_json[OF nn, of c k]
    have "p = Some \<lparr>jp_key = k, jp_chart = False,
                jp_status_color = getStatusColor (as_status (get d ''status'')),
                jp_status_text = getStatusText (as_status (get d ''status'')),
                jp_rows = [], jp_children = failed_children c d\<rparr>"
      by simp
    with nn False show ?thesis
      by (simp add: shows_entry_def panel_children_def entry_children_def failed_children_def)
  qed
qed

lemma render_entry_ok:
  assumes "d \<noteq> JNull"
    and "get d ''status'' = Some (JStr ''success'') \<longrightarrow>
           carries_chart_data d \<and> comparable_score c d"
  shows "\<exists>p. render_entry c a (k, d) = Inr p"
proof (cases "get d ''status'' = Some (JStr ''success'')")
  case True
  with assms(2) render_entry_chart[OF True] chart_json[OF True, of c a k] show ?thesis by simp
next
  case False
  with render_entry_failed[OF assms(1) False] failed_json[OF assms(1), of c k] show ?thesis by simp
qed

lemma summary_children_Inr:
  "summary_children c a = Inr sm \<longleftrightarrow>
     (\<exists>m. get a ''metadata'' = Some m \<and> m \<noteq> JNull
          \<and> sm = summary_list c a (get m ''successful_retrievals'') (get m ''total_distributions''))"
proof (cases "a = JNull")
  case True
  then show ?thesis by (simp add: summary_children_def)
next
  case False
  then show ?thesis
    by (cases "get a ''metadata''")
       (auto simp: summary_children_def member_get member_opt_def member_def)
qed

lemma render_distributions_Inr:
  "render_distributions_json c a = Inr ps \<longleftrightarrow>
     (\<exists>ds. get a ''distributions'' = Some ds \<and> ds \<noteq> JNull
          \<and> sequence (map (render_entry c a) (entries ds)) = Inr ps)"
proof (cases "a = JNull")
  case True
  then show ?thesis by (simp add: render_distributions_json_def)
next
  case False
  then show ?thesis
    by (cases "get a ''distributions''")
       (auto simp: render_distributions_json_def member_get object_entries_def)
qed

text \<open>The block is rendered when neither the evaluation nor React throws.\<close>

lemma analysis_block_Inr:
  "analysis_block c True (Some a) False = Inr (Some (sm, ps)) \<longleftrightarrow>
     (summary_children c a = Inr sm \<and> render_distributions_json c a = Inr ps
      \<and> list_all renderable (sm @ concat (map panel_children ps)))"
proof (cases "truthy a")
  case True
  then show ?thesis
    by (cases "summary_children c a"; cases "render_distributions_json c a")
       (auto simp: analysis_block_def)
next
  case False
  have "summary_children c a \<noteq> Inr sm"
  proof
    assume "summary_children c a = Inr sm"
    then obtain m where "get a ''metadata'' = Some m" by (auto simp: summary_children_Inr)
    with get_not_null False show False by blast
  qed
  with False show ?thesis by (simp add: analysis_block_def)
qed

lemma analysis_block_cases:
  assumes "truthy a"
  shows "(\<exists>e. analysis_block c True (Some a) False = Inl e)
       \<or> (\<exists>summary ps. analysis_block c True (Some a) False = Inr (Some (summary, ps)))"
  using assms
  by (cases "summary_children c a"; cases "render_distributions_json c a")
     (auto simp: analysis_block_def)

lemma list_all_concat_nth:
  assumes "\<forall>i<length ps. list_all R (f (ps ! i))"
  shows "list_all R (concat (map f ps))"
proof -
  have "R x" if "p \<in> set ps" "x \<in> set (f p)" for p x
  proof -
    from that(1) obtain i where "i < length ps" "ps ! i = p" by (auto simp: in_set_conv_nth)
    with assms that(2) show ?thesis by (auto simp: list_all_iff)
  qed
  then show ?thesis by (auto simp: list_all_iff)
qed

lemma list_all_concat_mem:
  "list_all R (concat (map f ps)) \<Longrightarrow> p \<in> set ps \<Longrightarrow> list_all R (f p)"
  by (auto simp: list_all_iff)

text \<open>A well-formed response is rendered, every entry with its panel.\<close>

lemma well_formed_rendered:
  assumes "well_formed c a"
  shows "\<exists>ds summary ps. get a ''distributions'' = Some ds
       \<and> analysis_block c True (Some a) False = Inr (Some (summary, ps))
       \<and> length ps = length (entries ds)
       \<and> (\<forall>i<length (entries ds). shows_entry c a (entries ds ! i) (ps ! i))"
proof -
  from assms obtain m where m: "get a ''metadata'' = Some m" "m \<noteq> JNull"
    and sr: "list_all renderable
       (summary_list c a (get m ''successful_retrievals'') (get m ''total_distributions''))"
    by (auto simp: well_formed_def renders_summary_def split: option.splits)
  from assms obtain ds where ds: "get a ''distributions'' = Some ds" "ds \<noteq> JNull"
    and es: "list_all (\<lambda>(key, d). renders_entry c a d) (entries ds)"
    by (auto simp: well_formed_def split: option.splits)
  let ?sm = "summary_list c a (get m ''successful_retrievals'') (get m ''total_distributions'')"
  let ?es = "entries ds"
  let ?ps = "map (\<lambda>e. projr (render_entry c a e)) ?es"
  have each: "\<exists>p. render_entry c a e = Inr p" if "e \<in> set ?es" for e
  proof -
    obtain k d where e: "e = (k, d)" by (cases e)
    from es that e have "renders_entry c a d" by (auto simp: list_all_iff)
    then have "d \<noteq> JNull"
      "get d ''status'' = Some (JStr ''success'') \<longrightarrow>
         carries_chart_data d \<and> comparable_score c d"
      by (simp_all add: renders_entry_def)
    from render_entry_ok[OF this, of a k] e show ?thesis by simp
  qed
  then have "\<forall>e\<in>set ?es. \<exists>p. render_entry c a e = Inr p" by blast
  from sequence_map_Inr[where f = "render_entry c a" and xs = ?es, OF this]
  have sq: "sequence (map (render_entry c a) ?es) = Inr ?ps" .
  have nth: "shows_entry c a (?es ! i) (?ps ! i)
        \<and> list_all renderable (panel_children (?ps ! i))" if i: "i < length ?es" for i
  proof -
    obtain k d where e: "?es ! i = (k, d)" by (cases "?es ! i")
    from i have mem: "?es ! i \<in> set ?es" by simp
    from each[OF mem] obtain p where p: "render_entry c a (?es ! i) = Inr p" by blast
    with i have pi: "?ps ! i = p" by simp
    from es mem e have "renders_entry c a d" by (auto simp: list_all_iff)
    then have ch: "list_all renderable (entry_children c a d)" by (simp add: renders_entry_def)
    from render_entry_Inr[OF p[unfolded e]] ch e pi show ?thesis by simp
  qed
  then have "\<forall>i<length ?ps. list_all renderable (panel_children (?ps ! i))" by simp
  from list_all_concat_nth[where f = panel_children and R = renderable, OF this]
  have "list_all renderable (concat (map panel_children ?ps))" .
  with sr have ok: "list_all renderable (?sm @ concat (map panel_children ?ps))" by simp
  from m have s: "summary_children c a = Inr ?sm" by (auto simp: summary_children_Inr)
  from ds sq have r: "render_distributions_json c a = Inr ?ps"
    by (auto simp: render_distributions_Inr)
  from s r ok have "analysis_block c True (Some a) False = Inr (Some (?sm, ?ps))"
    by (simp add: analysis_block_Inr)
  with ds(1) nth show ?thesis by (intro exI[of _ ds] exI[of _ ?sm] exI[of _ ?ps]) simp
qed

text \<open>Only a well-formed response is rendered.\<close>

lemma rendered_well_formed:
  assumes "analysis_block c True (Some a) False = Inr (Some (summary, ps))"
  shows "well_formed c a"
proof -
  from assms have sc: "summary_children c a = Inr summary"
    and rd: "render_distributions_json c a = Inr ps"
    and ok: "list_all renderable (summary @ concat (map panel_children ps))"
    by (simp_all add: analysis_block_Inr)
  from sc obtain m where m: "get a ''metadata'' = Some m" "m \<noteq> JNull"
    and sm: "summary = summary_list c a (get m ''successful_retrievals'')
                         (get m ''total_distributions'')"
    by (auto simp: summary_children_Inr)
  from ok sm m have rs: "renders_summary c a" by (simp add: renders_summary_def)
  from rd obtain ds where ds: "get a ''distributions'' = Some ds" "ds \<noteq> JNull"
    and sq: "sequence (map (render_entry c a) (entries ds)) = Inr ps"
    by (auto simp: render_distributions_Inr)
  from sequence_Inr_nth[OF sq] have len: "length ps = length (entries ds)"
    and nth: "\<forall>i<length (entries ds). render_entry c a (entries ds ! i) = Inr (ps ! i)"
    by simp_all
  have "renders_entry c a d" if e: "(k, d) \<in> set (entries ds)" for k d
  proof -
    from e obtain i where i: "i < length (entries ds)" "entries ds ! i = (k, d)"
      by (auto simp: in_set_conv_nth)
    from nth[rule_format, OF i(1)] have r: "render_entry c a (k, d) = Inr (ps ! i)"
      unfolding i(2) .
    from i(1) len have "ps ! i \<in> set ps" by simp
    with ok have "list_all renderable (panel_children (ps ! i))"
      using list_all_concat_mem[of renderable panel_children ps "ps ! i"] by simp
    with render_entry_Inr[OF r] show ?thesis by (simp add: renders_entry_def)
  qed
  then have "list_all (\<lambda>(key, d). renders_entry c a d) (entries ds)"
    by (auto simp: list_all_iff)
  with rs ds show ?thesis by (simp add: well_formed_def)
qed


lemmas json_render_defs =
  analysis_block_def summary_children_def summary_list_def render_distributions_json_def
  render_entry_def renderDistributionChart_json_def renderFailedDistribution_json_def
  chart_children_def failed_children_def member_def member_opt_def get_opt_def or_js_def
  object_entries_def toLocaleString_call_def compare_call_def panel_score_def
  panel_children_def renderable_def getStatusColor_def getStatusText_def

lemmas well_formed_defs =
  well_formed_def renders_summary_def renders_entry_def summary_list_def
  entry_children_def chart_children_def failed_children_def carries_chart_data_def
  comparable_score_def panel_score_def renderable_def or_js_def get_opt_def

text \<open>A count that is an object, and an outcome that is \<open>null\<close>, make the render
  throw.\<close>

lemma object_count_throws:
  "analysis_block (UnifiedAnalysis Gender ''Male'') True
     (Some (JObj [(''metadata'', JObj [(''successful_retrievals'', JObj []),
                                      (''total_distributions'', JNum 2)]),
                  (''distributions'', JObj [(''income'', sample_failure)])])) False
   = Inl InvalidChild"
  by (simp add: sample_failure_def json_render_defs)

lemma null_outcome_throws:
  "analysis_block (UnifiedAnalysis Gender ''Male'') True
     (Some (JObj [(''metadata'', JObj [(''successful_retrievals'', JNum 0),
                                      (''total_distributions'', JNum 2)]),
                  (''distributions'', JObj [(''age'', JNull), (''income'', sample_failure)])])) False
   = Inl TypeError"
  by (simp add: sample_failure_def json_render_defs)

section \<open>Typed outcomes as parsed values\<close>

text \<open>On a parsed outcome that carries the properties of a typed one, the render
  of the parsed outcome and the render of the typed outcome agree: they throw
  together, and the panels show the same key, status, rows and children. No child
  of such a panel is an object.\<close>

lemma as_status_JStr [simp]: "as_status (map_option JStr s) = s"
  by (cases s) simp_all

lemma or_js_JStr:
  "or_js (map_option JStr a) (Some (JStr b)) = map_option JStr (or_str a (Some b))"
  by (cases a) (simp_all add: or_js_def or_str_def)

lemma or_js_opt:
  "or_js (map_option JStr a) (map_option JStr b) = map_option JStr (or_str a b)"
  by (cases a) (simp_all add: or_js_def or_str_def)

lemma parsed_computed:
  assumes "parsed_as j d"
  shows "get j (''matched_'' @ type_key ty) = map_option JStr (strs d (''matched_'' @ type_key ty))"
    and "get j (type_key ty @ ''_explanation'')
           = map_option JStr (strs d (type_key ty @ ''_explanation''))"
    and "get j ''matched_age_range'' = map_option JStr (strs d ''matched_age_range'')"
    and "get j ''range_explanation'' = map_option JStr (strs d ''range_explanation'')"
  using assms by (cases ty; simp add: parsed_as_def computed_keys_def)+

lemma parsed_complete:
  assumes "parsed_as j d"
  shows "carries_chart_data j \<longleftrightarrow> complete d"
  using assms
  by (auto simp: parsed_as_def carries_chart_data_def complete_def json_of_item_def
      split: option.splits)

lemma parsed_comparable:
  assumes "parsed_as j d"
  shows "comparable_score c j"
  using assms
  by (cases c)
     (auto simp: parsed_as_def comparable_score_def panel_score_def or_js_def
      split: option.splits)

lemma parsed_failure_edu:
  assumes "parsed_as j d" and "status d \<noteq> Some ''success''"
  shows "\<exists>q fp. render_entry EducationAnalysis a (k, j) = Inr (Some q)
       \<and> renderFailedDistributionEdu k d = Inr (Some (FailedPanel fp))
       \<and> \<not> jp_chart q \<and> jp_key q = failed_key fp
       \<and> jp_status_color q = failed_status_color fp
       \<and> jp_status_text q = failed_status_text fp
       \<and> jp_children q = [map_option JStr (failed_title fp), map_option JStr (failed_error fp),
                           map_option JStr (strs d ''matched_education'')]
       \<and> best_match fp = when_str (strs d ''matched_education'')
       \<and> list_all renderable (jp_children q)"
proof -
  from assms have nn: "j \<noteq> JNull" and ns: "get j ''status'' \<noteq> Some (JStr ''success'')"
    by (auto simp: parsed_as_def)
  from assms(1) parsed_computed(1)[OF assms(1), of Education] show ?thesis
    by (simp add: render_entry_failed[OF nn ns] failed_json[OF nn] failed_children_def
        renderFailedDistributionEdu_def parsed_as_def or_js_JStr renderable_def
        split: option.splits)
qed

lemma parsed_chart_edu:
  assumes "parsed_as j d" and "status d = Some ''success''"
    and "get a ''target_education'' = map_option JStr tg"
  shows "if complete d
     then (\<exists>q cp. render_entry EducationAnalysis a (k, j) = Inr (Some q)
             \<and> renderDistributionChartEdu tg k d = Inr (Some (ChartPanel cp))
             \<and> jp_chart q \<and> jp_key q = panel_key cp
             \<and> jp_status_color q = panel_status_color cp
             \<and> jp_status_text q = panel_status_text cp
             \<and> map snd (jp_rows q) = map (\<lambda>r. Some (JStr (name r))) (chartData cp)
             \<and> jp_children q = map (map_option JStr)
                  [panel_title cp, requested cp, matched cp, explanation cp, source_shown cp]
             \<and> list_all renderable (jp_children q))
     else render_entry EducationAnalysis a (k, j) = Inl TypeError
          \<and> renderDistributionChartEdu tg k d = Inl TypeError"
proof -
  from assms have st: "get j ''status'' = Some (JStr ''success'')"
    by (simp add: parsed_as_def)
  note ch = render_entry_chart[OF st, of EducationAnalysis a k] chart_json[OF st, of EducationAnalysis a k]
  show ?thesis
  proof (cases "complete d")
    case True
    with parsed_complete[OF assms(1)] have ccd: "carries_chart_data j" by simp
    from True obtain cd items tp where d: "conditional_distribution d = Some cd"
      "data cd = Some items" "total_population d = Some tp"
      by (auto simp: complete_def split: option.splits)
    with assms(1) have dt: "get_opt (get j ''conditional_distribution'') ''data''
        = Some (JArr (map json_of_item items))"
      by (simp add: parsed_as_def)
    from assms d ccd dt True parsed_computed(1,2)[OF assms(1), of Education]
      parsed_comparable[OF assms(1), of EducationAnalysis] show ?thesis
      by (simp add: ch chart_children_def renderDistributionChartEdu_def parsed_as_def
          or_js_JStr renderable_def comp_def json_of_item_def Let_def
          split: option.splits)
  next
    case False
    with parsed_complete[OF assms(1)] have "\<not> carries_chart_data j" by simp
    with False assms(2) chart_incomplete_throws[of d] show ?thesis
      by (simp add: ch)
  qed
qed

lemma parsed_chart_unified:
  assumes "parsed_as j d" and "status d = Some ''success''"
    and "get a (''target_'' @ type_key ty) = map_option JStr tg"
  shows "if complete d
     then (\<exists>q cp. render_entry (UnifiedAnalysis ty v) a (k, j) = Inr (Some q)
             \<and> renderDistributionChart ty v tg k d = Inr (Some (ChartPanel cp))
             \<and> jp_chart q \<and> jp_key q = panel_key cp
             \<and> jp_status_color q = panel_status_color cp
             \<and> jp_status_text q = panel_status_text cp
             \<and> map snd (jp_rows q) = map (\<lambda>r. Some (JStr (name r))) (chartData cp)
             \<and> jp_children q = map (map_option JStr)
                  [panel_title cp, requested cp, matched cp, explanation cp, source_shown cp]
             \<and> list_all renderable (jp_children q))
     else render_entry (UnifiedAnalysis ty v) a (k, j) = Inl TypeError
          \<and> renderDistributionChart ty v tg k d = Inl TypeError"
proof -
  from assms have st: "get j ''status'' = Some (JStr ''success'')"
    by (simp add: parsed_as_def)
  note ch = render_entry_chart[OF st, of "UnifiedAnalysis ty v" a k]
    chart_json[OF st, of "UnifiedAnalysis ty v" a k]
  note keys = parsed_computed(1,2)[OF assms(1), of ty] parsed_computed(1,2)[OF assms(1), of Gender]
    parsed_computed(1,2)[OF assms(1), of Income] parsed_computed(1,2)[OF assms(1), of Education]
    parsed_computed(3,4)[OF assms(1)]
  show ?thesis
  proof (cases "complete d")
    case True
    with parsed_complete[OF assms(1)] have ccd: "carries_chart_data j" by simp
    from True obtain cd items tp where d: "conditional_distribution d = Some cd"
      "data cd = Some items" "total_population d = Some tp"
      by (auto simp: complete_def split: option.splits)
    with assms(1) have dt: "get_opt (get j ''conditional_distribution'') ''data''
        = Some (JArr (map json_of_item items))"
      by (simp add: parsed_as_def)
    have src: "get j ''data_source'' = map_option JStr (data_source d)"
      and nm: "get j ''name'' = map_option JStr (title d)"
      using assms(1) by (simp_all add: parsed_as_def)
    have un: "Some (JStr u) = map_option JStr (Some u)" for u by simp
    have children: "chart_children (UnifiedAnalysis ty v) a j = map (map_option JStr)
       [title d, or_str tg (Some v),
        or_str (strs d (''matched_'' @ type_key ty))
          (or_str (strs d ''matched_gender'') (or_str (strs d ''matched_income'')
            (or_str (strs d ''matched_education'') (or_str (strs d ''matched_age_range'')
              (Some ''Unknown''))))),
        or_str (strs d (type_key ty @ ''_explanation''))
          (or_str (strs d ''gender_explanation'') (or_str (strs d ''income_explanation'')
            (or_str (strs d ''education_explanation'') (or_str (strs d ''range_explanation'')
              (Some ''Matched''))))),
        or_str (data_source d) (Some ''Unknown'')]"
      unfolding chart_children_def using keys src nm assms(3)
      by (simp add: un or_js_opt del: option.map)
    have rn: "list_all renderable (map (map_option JStr) xs)" for xs
      by (induction xs) (simp_all add: renderable_def split: option.splits)
    from d ccd dt True assms(2) parsed_comparable[OF assms(1), of "UnifiedAnalysis ty v"]
    show ?thesis
      by (simp add: ch children rn renderDistributionChart_def comp_def json_of_item_def Let_def
          del: list.map)
  next
    case False
    with parsed_complete[OF assms(1)] have "\<not> carries_chart_data j" by simp
    with False assms(2) chart_incomplete_throws[of d] show ?thesis
      by (simp add: ch)
  qed
qed


lemma parsed_sample:
  "parsed_as (JObj [(''status'', JStr ''success''), (''name'', JStr ''Gender''),
                    (''conditional_distribution'',
                       JObj [(''data'', JArr (map json_of_item sample_items))]),
                    (''total_population'', JNum 50)]) unscored_success"
  by (simp add: parsed_as_def unscored_success_def blank_outcome_def computed_keys_def
      get_opt_def)

section \<open>Rendering of every outcome\<close>

text \<open>
  C3, as stated, fails. A response with two outcomes, of which the one of status
  \<open>success\<close> carries no \<open>conditional_distribution\<close>, makes the render of the unified
  and of the education component throw, so that neither outcome is rendered; so
  does a response whose failed outcome carries an object as its \<open>error\<close>, which React
  refuses as a child.
\<close>

theorem unrendered_outcomes_counterexample:
  "map fst (entries (the (get incomplete_response ''distributions''))) = [''age'', ''income'']
   \<and> analysis_block (UnifiedAnalysis Gender ''Male'') True (Some incomplete_response) False
       = Inl TypeError
   \<and> analysis_block EducationAnalysis True (Some incomplete_response) False = Inl TypeError
   \<and> map fst (entries (the (get object_error_response ''distributions''))) = [''age'', ''income'']
   \<and> analysis_block (UnifiedAnalysis Gender ''Male'') True (Some object_error_response) False
       = Inl InvalidChild
   \<and> analysis_block EducationAnalysis True (Some object_error_response) False = Inl InvalidChild"
  by (simp add: incomplete_response_def object_error_response_def sample_success_def
      sample_failure_def json_render_defs)

text \<open>
  C3, amended. For every analysis response that is well formed for the component
  (\<open>metadata\<close> and \<open>distributions\<close> are there and not null, no outcome is null, no
  value shown as a child is or holds an object, and every outcome of status
  \<open>success\<close> carries \<open>conditional_distribution.data\<close>, an array without null items,
  a \<open>total_population\<close> that is not null, and neither a \<open>total_population\<close> nor
  a score that hides \<open>toString\<close> or \<open>toLocaleString\<close> behind a property of its
  own), the unified and the education component render every entry of
  \<open>distributions\<close>: the list of panels has one panel per entry, in the order of the
  entries; the panel of a success outcome is its chart panel and the panel of every
  other outcome is the failure panel showing that outcome's status and error text.
  No entry is dropped. A response that is not well formed makes the render throw,
  and no panel is shown: a failure is isolated when it is reported by a status
  other than \<open>success\<close> in an outcome with displayable properties, and not
  otherwise. (\<open>shows_entry\<close> says what the panel of an entry shows.)
\<close>

theorem every_outcome_rendered:
  "(well_formed c a \<longrightarrow>
      (\<exists>ds summary ps. get a ''distributions'' = Some ds
         \<and> analysis_block c True (Some a) False = Inr (Some (summary, ps))
         \<and> length ps = length (entries ds)
         \<and> (\<forall>i<length (entries ds). shows_entry c a (entries ds ! i) (ps ! i))))
   \<and> (truthy a \<and> \<not> well_formed c a \<longrightarrow>
        (\<exists>e. analysis_block c True (Some a) False = Inl e))"
proof (intro conjI impI)
  assume "well_formed c a"
  then show "\<exists>ds summary ps. get a ''distributions'' = Some ds
         \<and> analysis_block c True (Some a) False = Inr (Some (summary, ps))
         \<and> length ps = length (entries ds)
         \<and> (\<forall>i<length (entries ds). shows_entry c a (entries ds ! i) (ps ! i))"
    by (rule well_formed_rendered)
next
  assume "truthy a \<and> \<not> well_formed c a"
  with analysis_block_cases[of a c] rendered_well_formed[of c a]
  show "\<exists>e. analysis_block c True (Some a) False = Inl e" by blast
qed

theorem every_outcome_rendered_witness:
  "well_formed EducationAnalysis code_shaped_response
   \<and> (\<exists>summary ps. analysis_block EducationAnalysis True (Some code_shaped_response) False
           = Inr (Some (summary, ps))
         \<and> length ps = 2
         \<and> shows_entry EducationAnalysis code_shaped_response (''age'', sample_success) (ps ! 0)
         \<and> shows_entry EducationAnalysis code_shaped_response (''income'', sample_failure) (ps ! 1))
   \<and> truthy incomplete_response
   \<and> \<not> well_formed (UnifiedAnalysis Gender ''Male'') incomplete_response
   \<and> (\<exists>e. analysis_block (UnifiedAnalysis Gender ''Male'') True (Some incomplete_response) False
            = Inl e)"
proof -
  have wf: "well_formed EducationAnalysis code_shaped_response"
    by (simp add: well_formed_defs code_shaped_response_def sample_success_def
        sample_failure_def)
  have es: "get code_shaped_response ''distributions''
      = Some (JObj [(''age'', sample_success), (''income'', sample_failure)])"
    by (simp add: code_shaped_response_def)
  from every_outcome_rendered[of EducationAnalysis code_shaped_response] wf es
  obtain summary ps where
    b: "analysis_block EducationAnalysis True (Some code_shaped_response) False
           = Inr (Some (summary, ps))"
    and l: "length ps = length [(''age'', sample_success), (''income'', sample_failure)]"
    and s: "\<forall>i<length [(''age'', sample_success), (''income'', sample_failure)].
          shows_entry EducationAnalysis code_shaped_response
            ([(''age'', sample_success), (''income'', sample_failure)] ! i) (ps ! i)"
    by auto
  from s[rule_format, of 0] s[rule_format, of 1] l b
  have first: "\<exists>summary ps. analysis_block EducationAnalysis True (Some code_shaped_response) False
           = Inr (Some (summary, ps))
         \<and> length ps = 2
         \<and> shows_entry EducationAnalysis code_shaped_response (''age'', sample_success) (ps ! 0)
         \<and> shows_entry EducationAnalysis code_shaped_response (''income'', sample_failure) (ps ! 1)"
    by auto
  have ill: "truthy incomplete_response"
    "\<not> well_formed (UnifiedAnalysis Gender ''Male'') incomplete_response"
    by (simp_all add: well_formed_defs incomplete_response_def sample_failure_def)
  from every_outcome_rendered[of "UnifiedAnalysis Gender ''Male''" incomplete_response] ill
  have "\<exists>e. analysis_block (UnifiedAnalysis Gender ''Male'') True (Some incomplete_response) False
            = Inl e" by blast
  with wf first ill show ?thesis by blast
qed

section \<open>The shape of the response\<close>





section \<open>Best-effort matching\<close>

lemma best_mem: "best sc c xs \<in> set (c # xs)"
  by (induction xs arbitrary: c) auto

lemma best_max: "\<forall>x\<in>set (c # xs). sc x \<le> sc (best sc c xs)"
proof (induction xs arbitrary: c)
  case Nil
  show ?case by simp
next
  case (Cons y ys)
  let ?c = "if sc c < sc y then y else c"
  from Cons.IH[of ?c] have ih: "\<forall>x\<in>set (?c # ys). sc x \<le> sc (best sc ?c ys)" .
  then have top: "sc ?c \<le> sc (best sc ?c ys)" by simp
  have "sc c \<le> sc ?c" "sc y \<le> sc ?c" by auto
  with top have "sc c \<le> sc (best sc ?c ys)" "sc y \<le> sc (best sc ?c ys)" by linarith+
  with ih show ?case by simp
qed

text \<open>
  C4. For every input string and every scoring of the candidates, the matcher
  returns a candidate, and one with the highest score, also when no candidate scores
  above the floor threshold 0.15; the result is classified no_match exactly in that
  case. The outcome the per-table step then builds has the status \<open>no_match\<close> and
  still carries the matched category, and the failure panel of the education
  component shows it as the best match found (when it is not the empty string).
  Matcher and per-table step are modelled from the specification; the failure panel
  is the component's.
\<close>

theorem best_effort_match:
  assumes "local_categories t = (c, cs)"
  shows "mr_matched (match rate inp c cs) \<in> set (c # cs)
    \<and> (\<forall>x\<in>set (c # cs). fst (rate inp x) \<le> mr_score (match rate inp c cs))
    \<and> mr_score (match rate inp c cs) = fst (rate inp (mr_matched (match rate inp c cs)))
    \<and> (mr_no_match (match rate inp c cs) \<longleftrightarrow>
         (\<forall>x\<in>set (c # cs). fst (rate inp x) \<le> floor_threshold))
    \<and> (mr_no_match (match rate inp c cs) \<longrightarrow>
         status (table_outcome rate local_categories conditional ttl inp (Table t))
           = Some ''no_match''
         \<and> strs (table_outcome rate local_categories conditional ttl inp (Table t))
             ''matched_education'' = Some (mr_matched (match rate inp c cs))
         \<and> (\<exists>fp. render_distributions_edu tg
                    [(k, table_outcome rate local_categories conditional ttl inp (Table t))]
                  = Inr [Some (FailedPanel fp)]
               \<and> failed_status_text fp = getStatusText (Some ''no_match'')
               \<and> (mr_matched (match rate inp c cs) \<noteq> [] \<longrightarrow>
                    best_match fp = Some (mr_matched (match rate inp c cs)))))"
proof -
  let ?sc = "\<lambda>x. fst (rate inp x)"
  let ?b = "best ?sc c cs"
  let ?r = "match rate inp c cs"
  let ?d = "table_outcome rate local_categories conditional ttl inp (Table t)"
  have m: "mr_matched ?r = ?b" and s: "mr_score ?r = ?sc ?b"
    and n: "mr_no_match ?r \<longleftrightarrow> \<not> floor_threshold < ?sc ?b"
    by (simp_all add: match_def Let_def)
  have 1: "mr_matched ?r \<in> set (c # cs)" unfolding m by (rule best_mem)
  have 2: "\<forall>x\<in>set (c # cs). ?sc x \<le> mr_score ?r"
    unfolding s using best_max[of c cs ?sc] by blast
  have 3: "mr_score ?r = ?sc (mr_matched ?r)" by (simp add: m s)
  have 4: "mr_no_match ?r \<longleftrightarrow> (\<forall>x\<in>set (c # cs). ?sc x \<le> floor_threshold)"
  proof
    assume "mr_no_match ?r"
    with n have "?sc ?b \<le> floor_threshold" by simp
    with 2 s show "\<forall>x\<in>set (c # cs). ?sc x \<le> floor_threshold" by fastforce
  next
    assume "\<forall>x\<in>set (c # cs). ?sc x \<le> floor_threshold"
    with best_mem[of ?sc c cs] have "?sc ?b \<le> floor_threshold" by blast
    with n show "mr_no_match ?r" by simp
  qed
  have 5: "status ?d = Some ''no_match''
         \<and> strs ?d ''matched_education'' = Some (mr_matched ?r)
         \<and> (\<exists>fp. render_distributions_edu tg [(k, ?d)] = Inr [Some (FailedPanel fp)]
               \<and> failed_status_text fp = getStatusText (Some ''no_match'')
               \<and> (mr_matched ?r \<noteq> [] \<longrightarrow> best_match fp = Some (mr_matched ?r)))"
    if nm: "mr_no_match ?r"
  proof -
    from nm assms have st: "status ?d = Some ''no_match''"
      and ma: "strs ?d ''matched_education'' = Some (mr_matched ?r)"
      by (simp_all add: table_outcome_def Let_def blank_outcome_def)
    from st ma have "render_distributions_edu tg [(k, ?d)] =
        Inr [Some (FailedPanel
          \<lparr>failed_key = k, failed_title = title ?d,
           failed_status_color = getStatusColor (Some ''no_match''),
           failed_status_text = getStatusText (Some ''no_match''),
           failed_error = or_str (error ?d) (Some ''Unable to retrieve data''),
           best_match = when_str (Some (mr_matched ?r))\<rparr>)]"
      by (simp add: render_distributions_edu_def renderFailedDistributionEdu_def)
    with st ma show ?thesis by (simp add: when_str_def)
  qed
  from 1 2 3 4 5 show ?thesis by blast
qed

theorem best_effort_match_witness:
  "mr_matched (match sample_rate ''xyz-nonsense'' ''Some college'' [''Bachelor's degree''])
     = ''Bachelor's degree''
   \<and> mr_no_match (match sample_rate ''xyz-nonsense'' ''Some college'' [''Bachelor's degree''])
   \<and> (\<exists>fp. render_distributions_edu (Some ''xyz-nonsense'')
              [(''age'', table_outcome sample_rate (\<lambda>t. (''Some college'', [''Bachelor's degree'']))
                 (\<lambda>t c. (sample_items, 50)) ''Age'' ''xyz-nonsense'' (Table ()))]
            = Inr [Some (FailedPanel fp)]
         \<and> best_match fp = Some ''Bachelor's degree'')"
proof -
  let ?r = "match sample_rate ''xyz-nonsense'' ''Some college'' [''Bachelor's degree'']"
  have h: "(\<lambda>t::unit. (''Some college'', [''Bachelor's degree''])) () =
             (''Some college'', [''Bachelor's degree''])"
    by simp
  have m: "mr_matched ?r = ''Bachelor's degree''"
    by (simp add: match_def sample_rate_def Let_def)
  have low: "\<forall>x\<in>set [''Some college'', ''Bachelor's degree''].
               fst (sample_rate ''xyz-nonsense'' x) \<le> floor_threshold"
    by (simp add: sample_rate_def floor_threshold_def)
  note t = best_effort_match [where local_categories = "\<lambda>t::unit. (''Some college'', [''Bachelor's degree''])"
      and t = "()" and c = "''Some college''" and cs = "[''Bachelor's degree'']"
      and rate = sample_rate and inp = "''xyz-nonsense''"
      and conditional = "\<lambda>t c. (sample_items, 50)" and ttl = "''Age''"
      and tg = "Some ''xyz-nonsense''" and k = "''age''", OF h]
  from t low have nm: "mr_no_match ?r" by blast
  from t nm m show ?thesis by auto
qed

section \<open>Percentages of the trade-area charts\<close>

lemma foldl_population:
  "foldl (\<lambda>sum i. sum + population i) a xs = a + sum_list (map population xs)"
  by (induction xs arbitrary: a) auto

lemma tooltip_hovered:
  "CustomTooltip True (Some (hovered p)) lbl dt =
     Some \<lparr>tip_label = lbl, tip_color = map_of DATA_TYPE_COLORS dt,
           tip_population = population (pt_item p),
           tip_percentage = (case pt_total p of None \<Rightarrow> 0
              | Some t \<Rightarrow> if t > 0 then population (pt_item p) / t * 100 else 0)\<rparr>"
  by (auto simp: CustomTooltip_def hovered_def or_num_def Let_def split: option.splits)

lemma chart_storewise:
  "xs \<noteq> [] \<Longrightarrow> \<exists>c. DistributionChart_Storewise ttl (Some xs) dt ct = Some c
     \<and> sw_total c = sum_list (map population xs)
     \<and> points c = map (\<lambda>i. \<lparr>pt_item = i, pt_total = Some (sum_list (map population xs)),
                                    pt_name = ellipsis 20 (category i)\<rparr>) xs"
  by (simp add: DistributionChart_Storewise_def Let_def foldl_population)

lemma sum_list_scaled:
  "sum_list (map (\<lambda>i. population i / T * 100) xs) = sum_list (map population xs) / T * 100"
  by (induction xs) (simp_all add: add_divide_distrib distrib_right)

lemma sample_trade_area_total: "sum_list (map population sample_trade_area) = 40"
  by (simp add: sample_trade_area_def)

text \<open>
  C1. For every data point of a rendered trade-area distribution, the percentage
  its tooltip displays is the point's count divided by the group total (the sum of the
  counts, attached to every point) and multiplied by 100 when the total is greater
  than 0, and it is 0 when the total is 0: the division stands under the guard
  \<open>total > 0\<close>.
\<close>

theorem tooltip_percentage_of_point:
  assumes "xs \<noteq> []"
  shows "\<exists>c. DistributionChart_Storewise ttl (Some xs) dt ct = Some c \<and>
           (\<forall>p\<in>set (points c). \<exists>t. CustomTooltip True (Some (hovered p)) lbl dt = Some t
              \<and> tip_population t = population (pt_item p)
              \<and> pt_total p = Some (sum_list (map population xs))
              \<and> (0 < sum_list (map population xs) \<longrightarrow>
                    tip_percentage t = population (pt_item p) / sum_list (map population xs) * 100)
              \<and> (sum_list (map population xs) = 0 \<longrightarrow> tip_percentage t = 0))"
proof -
  from chart_storewise[OF assms, of ttl dt ct] obtain c where
    c: "DistributionChart_Storewise ttl (Some xs) dt ct = Some c"
    and pts: "points c = map (\<lambda>i. \<lparr>pt_item = i, pt_total = Some (sum_list (map population xs)),
                                    pt_name = ellipsis 20 (category i)\<rparr>) xs"
    by blast
  have "\<exists>t. CustomTooltip True (Some (hovered p)) lbl dt = Some t
              \<and> tip_population t = population (pt_item p)
              \<and> pt_total p = Some (sum_list (map population xs))
              \<and> (0 < sum_list (map population xs) \<longrightarrow>
                    tip_percentage t = population (pt_item p) / sum_list (map population xs) * 100)
              \<and> (sum_list (map population xs) = 0 \<longrightarrow> tip_percentage t = 0)"
    if "p \<in> set (points c)" for p
  proof -
    from that pts have "pt_total p = Some (sum_list (map population xs))" by auto
    then show ?thesis by (simp add: tooltip_hovered)
  qed
  with c show ?thesis by blast
qed

theorem tooltip_percentage_of_point_witness:
  "sample_trade_area \<noteq> []
   \<and> (\<exists>c. DistributionChart_Storewise ''Gender Distribution in Trade Area''
            (Some sample_trade_area) ''Gender'' ''bar'' = Some c
         \<and> (\<forall>p\<in>set (points c). \<exists>t. CustomTooltip True (Some (hovered p)) ''Male'' ''Gender'' = Some t
              \<and> tip_percentage t = population (pt_item p) / 40 * 100))"
proof -
  have ne: "sample_trade_area \<noteq> []" by (simp add: sample_trade_area_def)
  from tooltip_percentage_of_point [OF ne, of "''Gender Distribution in Trade Area''"
      "''Gender''" "''bar''" "''Male''"] ne
  show ?thesis unfolding sample_trade_area_total by fastforce
qed

lemma perturbed_sum:
  fixes ps qs :: "real list"
  assumes "length qs = length ps" and "\<forall>k<length ps. \<bar>qs ! k - ps ! k\<bar> \<le> e * ps ! k"
  shows "\<bar>sum_list qs - sum_list ps\<bar> \<le> e * sum_list ps"
  using assms
proof (induction qs ps rule: list_induct2)
  case Nil
  then show ?case by simp
next
  case (Cons q qs p ps)
  from Cons.prems have hd: "\<bar>q - p\<bar> \<le> e * p" by fastforce
  from Cons.prems have "\<forall>k<length ps. \<bar>qs ! k - ps ! k\<bar> \<le> e * ps ! k" by fastforce
  from Cons.IH[OF this] have tl: "\<bar>sum_list qs - sum_list ps\<bar> \<le> e * sum_list ps" .
  have "\<bar>sum_list (q # qs) - sum_list (p # ps)\<bar> = \<bar>(q - p) + (sum_list qs - sum_list ps)\<bar>"
    by simp
  also have "\<dots> \<le> \<bar>q - p\<bar> + \<bar>sum_list qs - sum_list ps\<bar>" by (rule abs_triangle_ineq)
  also from hd tl have "\<dots> \<le> e * p + e * sum_list ps" by linarith
  also have "\<dots> = e * sum_list (p # ps)" by (simp add: distrib_left)
  finally show ?case .
qed

text \<open>
  C5. For every non-empty distribution, the total the trade-area chart computes and
  attaches to every point is the sum of the items' counts, and when that total is
  greater than 0 the percentages the tooltips display (count / total * 100) sum to 100
  within 0.1. With numbers as reals the sum is exactly 100; the tolerance is there
  for the rounding of doubles, which the model does not compute: any values that
  differ from the displayed percentages by a relative error of at most one in a
  thousand each (a rounded double is within about 2 to the power -52) still sum to 100
  within 0.1.
\<close>

theorem percentages_sum_to_100:
  assumes "xs \<noteq> []"
  shows "\<exists>c. DistributionChart_Storewise ttl (Some xs) dt ct = Some c
     \<and> sw_total c = sum_list (map population xs)
     \<and> (\<forall>p\<in>set (points c). pt_total p = Some (sum_list (map population xs)))
     \<and> (0 < sw_total c \<longrightarrow>
          (\<exists>ps. map (shown_percentage dt) (points c) = map Some ps
                \<and> \<bar>sum_list ps - 100\<bar> \<le> 1 / 10
                \<and> (\<forall>qs. length qs = length ps
                          \<and> (\<forall>k<length ps. \<bar>qs ! k - ps ! k\<bar> \<le> ps ! k / 1000)
                        \<longrightarrow> \<bar>sum_list qs - 100\<bar> \<le> 1 / 10)))"
proof -
  let ?T = "sum_list (map population xs)"
  from chart_storewise[OF assms, of ttl dt ct] obtain c where
    c: "DistributionChart_Storewise ttl (Some xs) dt ct = Some c"
    and tot: "sw_total c = ?T"
    and pts: "points c = map (\<lambda>i. \<lparr>pt_item = i, pt_total = Some ?T,
                                    pt_name = ellipsis 20 (category i)\<rparr>) xs"
    by blast
  have att: "\<forall>p\<in>set (points c). pt_total p = Some ?T" using pts by auto
  have "\<exists>ps. map (shown_percentage dt) (points c) = map Some ps
          \<and> \<bar>sum_list ps - 100\<bar> \<le> 1 / 10
          \<and> (\<forall>qs. length qs = length ps
                    \<and> (\<forall>k<length ps. \<bar>qs ! k - ps ! k\<bar> \<le> ps ! k / 1000)
                  \<longrightarrow> \<bar>sum_list qs - 100\<bar> \<le> 1 / 10)"
    if pos: "0 < ?T"
  proof -
    let ?ps = "map (\<lambda>i. population i / ?T * 100) xs"
    have shown: "map (shown_percentage dt) (points c) = map Some ?ps"
      using pos by (simp add: pts shown_percentage_def tooltip_hovered comp_def)
    have exact: "sum_list ?ps = 100" using pos by (subst sum_list_scaled) simp
    have robust: "\<bar>sum_list qs - 100\<bar> \<le> 1 / 10"
      if len: "length qs = length ?ps"
        and near: "\<forall>k<length ?ps. \<bar>qs ! k - ?ps ! k\<bar> \<le> ?ps ! k / 1000" for qs
    proof -
      from near have "\<forall>k<length ?ps. \<bar>qs ! k - ?ps ! k\<bar> \<le> (1 / 1000) * ?ps ! k" by simp
      from perturbed_sum[OF len this] exact show ?thesis by simp
    qed
    from shown exact robust show ?thesis by (intro exI[of _ ?ps]) simp
  qed
  with c tot att show ?thesis by auto
qed

theorem percentages_sum_to_100_witness:
  "sample_trade_area \<noteq> []
   \<and> (\<exists>c. DistributionChart_Storewise ''Gender Distribution in Trade Area''
            (Some sample_trade_area) ''Gender'' ''pie'' = Some c
         \<and> sw_total c = 40
         \<and> (\<exists>ps. map (shown_percentage ''Gender'') (points c) = map Some ps
                \<and> \<bar>sum_list ps - 100\<bar> \<le> 1 / 10))"
proof -
  have ne: "sample_trade_area \<noteq> []" by (simp add: sample_trade_area_def)
  from percentages_sum_to_100 [OF ne, of "''Gender Distribution in Trade Area''"
      "''Gender''" "''pie''"] ne
  show ?thesis unfolding sample_trade_area_total by fastforce
qed

section \<open>Shortened labels\<close>

lemma code_points_ascii:
  "\<forall>c\<in>set s. (of_char c :: nat) < 128 \<Longrightarrow> code_points s = map (\<lambda>c. [c]) s"
  by (induction s) (simp_all add: seq_bytes_def)

lemma take_units_single: "take_units n (map (\<lambda>c. [c]) s) = take n s"
proof (induction s arbitrary: n)
  case Nil
  show ?case by simp
next
  case (Cons c s)
  then show ?case by (cases n) simp_all
qed

lemma code_units_single:
  "concat (map (\<lambda>p. if length p = 4 then [fst (surrogate_pair p), snd (surrogate_pair p)]
                      else [p]) (map (\<lambda>c. [c]) s)) = map (\<lambda>c. [c]) s"
  by (induction s) simp_all

text \<open>On a string of ASCII characters the code units are the bytes, and a label is
  shortened at its \<open>n\<close>-th byte.\<close>

lemma ellipsis_ascii:
  assumes "\<forall>c\<in>set s. (of_char c :: nat) < 128"
  shows "ellipsis n s = (if length s > n then take n s @ ''...'' else s)"
proof -
  note cp = code_points_ascii[OF assms]
  have "code_units s = map (\<lambda>c. [c]) s"
    unfolding code_units_def cp by (rule code_units_single)
  then have len: "js_length s = length s" by (simp add: js_length_def)
  have "substring n s = take n s"
    unfolding substring_def cp by (rule take_units_single)
  with len show ?thesis by (simp add: ellipsis_def)
qed

text \<open>A name of 20 characters, two of them accented letters of two bytes each, is
  kept whole, and a cut never splits a character of two or three bytes.\<close>

lemma ellipsis_accented:
  "ellipsis 20 (''Caf'' @ [CHR 0xC3, CHR 0xA9] @ '' et th'' @ [CHR 0xC3, CHR 0xA9] @ '' du matin'')
     = ''Caf'' @ [CHR 0xC3, CHR 0xA9] @ '' et th'' @ [CHR 0xC3, CHR 0xA9] @ '' du matin''
   \<and> ellipsis 4 (''Caf'' @ [CHR 0xC3, CHR 0xA9] @ ''s'') = ''Caf'' @ [CHR 0xC3, CHR 0xA9] @ ''...''"
  by (simp add: ellipsis_def js_length_def code_units_def seq_bytes_def substring_def)

section \<open>Canonical order\<close>

lemma mset_insert_by: "mset (insert_by cmp x ys) = add_mset x (mset ys)"
  by (induction ys) auto

lemma mset_sort_by: "mset (sort_by cmp xs) = mset xs"
  by (induction xs) (auto simp: sort_by_def mset_insert_by)

lemma set_insert_by: "set (insert_by cmp x ys) = insert x (set ys)"
  by (induction ys) auto

lemma sorted_insert_by:
  assumes "\<And>a b. cmp a b = key a - key b"
  shows "sorted (map key ys) \<Longrightarrow> sorted (map key (insert_by cmp x ys))"
  using assms by (induction ys) (auto simp: set_insert_by)

lemma sorted_sort_by:
  assumes "\<And>a b. cmp a b = key a - key b"
  shows "sorted (map key (sort_by cmp xs))"
proof (induction xs)
  case Nil
  show ?case by (simp add: sort_by_def)
next
  case (Cons x xs)
  from sorted_insert_by[of cmp key, OF assms Cons.IH]
  show ?case by (simp add: sort_by_def)
qed

text \<open>The sort is stable: items with the same key keep their order. Together with
  the order of the keys this fixes the result of sorting with a consistent
  comparator.\<close>

lemma filter_insert_by:
  assumes "\<And>a b. cmp a b = key a - key b"
  shows "filter (\<lambda>y. key y = k) (insert_by cmp x ys) =
     (if key x = k then x # filter (\<lambda>y. key y = k) ys else filter (\<lambda>y. key y = k) ys)"
  using assms by (induction ys) auto

lemma sort_by_stable:
  assumes "\<And>a b. cmp a b = key a - key b"
  shows "filter (\<lambda>y. key y = k) (sort_by cmp xs) = filter (\<lambda>y. key y = k) xs"
proof (induction xs)
  case Nil
  show ?case by (simp add: sort_by_def)
next
  case (Cons x xs)
  have "sort_by cmp (x # xs) = insert_by cmp x (sort_by cmp xs)" by (simp add: sort_by_def)
  with Cons.IH filter_insert_by[of cmp key k x "sort_by cmp xs", OF assms]
  show ?case by simp
qed

lemma sortedAgeData_sample:
  "sortedAgeData (Some sample_joint) =
     [\<lparr>category = ''Under 25 years'', value = 15, percentage = 30\<rparr>,
      \<lparr>category = ''25 to 44 years'', value = 20, percentage = 40\<rparr>,
      \<lparr>category = ''45 to 64 years'', value = 10, percentage = 20\<rparr>,
      \<lparr>category = ''65 years and over'', value = 5, percentage = 10\<rparr>]"
  by (simp add: sortedAgeData_def sample_joint_def sample_age_rows_def sort_by_def
      ageOrder_def Let_def)

lemma indexOf_ge: "- 1 \<le> indexOf ys x"
  by (induction ys) (auto simp: Let_def)

lemma indexOf_mem: "x \<in> set ys \<longleftrightarrow> 0 \<le> indexOf ys x"
  using indexOf_ge[of _ x] by (induction ys) (auto simp: Let_def)

lemma indexOf_nth:
  "x \<in> set ys \<Longrightarrow> nat (indexOf ys x) < length ys \<and> ys ! nat (indexOf ys x) = x"
proof (induction ys)
  case Nil
  then show ?case by simp
next
  case (Cons y ys)
  show ?case
  proof (cases "y = x")
    case True
    then show ?thesis by simp
  next
    case False
    with Cons.prems have m: "x \<in> set ys" by simp
    then have "0 \<le> indexOf ys x" by (simp add: indexOf_mem)
    with False Cons.IH[OF m] show ?thesis by (auto simp: Let_def nat_add_distrib)
  qed
qed

text \<open>
  C8. Sorting a marginal distribution by the fixed canonical category order
  (\<open>sortedAgeData\<close>, \<open>sortedIncomeData\<close>) returns a permutation of the input: the
  output has exactly the elements of the input, each as often. Whenever every input
  category occurs in the canonical order list, every output category has a canonical
  position and the output lists the items in ascending canonical position.
\<close>

theorem canonical_order_sort:
  "(age_marginal j = Some xs \<longrightarrow>
      mset (sortedAgeData (Some j)) = mset xs \<and>
      (category ` set xs \<subseteq> set ageOrder \<longrightarrow>
         sorted (map (\<lambda>i. indexOf ageOrder (category i)) (sortedAgeData (Some j))) \<and>
         (\<forall>i\<in>set (sortedAgeData (Some j)). 0 \<le> indexOf ageOrder (category i)))) \<and>
   (income_marginal j = Some ys \<longrightarrow>
      mset (sortedIncomeData (Some j)) = mset ys \<and>
      (category ` set ys \<subseteq> set incomeOrder \<longrightarrow>
         sorted (map (\<lambda>i. indexOf incomeOrder (category i)) (sortedIncomeData (Some j))) \<and>
         (\<forall>i\<in>set (sortedIncomeData (Some j)). 0 \<le> indexOf incomeOrder (category i))))"
proof (intro conjI impI)
  assume a: "age_marginal j = Some xs"
  then show m: "mset (sortedAgeData (Some j)) = mset xs"
    by (simp add: sortedAgeData_def mset_sort_by)
  show "sorted (map (\<lambda>i. indexOf ageOrder (category i)) (sortedAgeData (Some j)))"
    using a by (simp add: sortedAgeData_def sorted_sort_by)
  assume "category ` set xs \<subseteq> set ageOrder"
  moreover from m have "set (sortedAgeData (Some j)) = set xs" by (rule mset_eq_setD)
  ultimately show "\<forall>i\<in>set (sortedAgeData (Some j)). 0 \<le> indexOf ageOrder (category i)"
    by (auto simp: indexOf_mem[symmetric])
next
  assume a: "income_marginal j = Some ys"
  then show m: "mset (sortedIncomeData (Some j)) = mset ys"
    by (simp add: sortedIncomeData_def mset_sort_by)
  show "sorted (map (\<lambda>i. indexOf incomeOrder (category i)) (sortedIncomeData (Some j)))"
    using a by (simp add: sortedIncomeData_def sorted_sort_by)
  assume "category ` set ys \<subseteq> set incomeOrder"
  moreover from m have "set (sortedIncomeData (Some j)) = set ys" by (rule mset_eq_setD)
  ultimately show "\<forall>i\<in>set (sortedIncomeData (Some j)). 0 \<le> indexOf incomeOrder (category i)"
    by (auto simp: indexOf_mem[symmetric])
qed

theorem canonical_order_sort_witness:
  "mset (sortedAgeData (Some sample_joint)) = mset sample_age_rows
   \<and> sorted (map (\<lambda>i. indexOf ageOrder (category i)) (sortedAgeData (Some sample_joint)))
   \<and> mset (sortedIncomeData (Some sample_joint)) = mset sample_income_rows
   \<and> sorted (map (\<lambda>i. indexOf incomeOrder (category i)) (sortedIncomeData (Some sample_joint)))"
proof -
  have a: "age_marginal sample_joint = Some sample_age_rows"
    and b: "income_marginal sample_joint = Some sample_income_rows"
    by (simp_all add: sample_joint_def)
  have c: "category ` set sample_age_rows \<subseteq> set ageOrder"
    by (simp add: sample_age_rows_def ageOrder_def)
  have d: "category ` set sample_income_rows \<subseteq> set incomeOrder"
    by (simp add: sample_income_rows_def incomeOrder_def)
  from canonical_order_sort [of sample_joint sample_age_rows sample_income_rows] a b c d
  show ?thesis by blast
qed

section \<open>Charts without data\<close>

text \<open>
  C10. Whenever the data array is missing or has length 0, every chart component
  that takes the data array as its prop returns \<open>null\<close>: the \<open>DistributionChart\<close> of
  App.js, of IndividualDistributions.js and of StorewiseDemographics.js and the two
  \<open>UnifiedDistributionChart\<close> components. None of them reads an element of the data
  or throws.
\<close>

theorem empty_data_renders_nothing:
  assumes "d = None \<or> d = Some []" and "e = None \<or> e = Some []"
  shows "DistributionChart_App d ttl clr ty = None
     \<and> DistributionChart_Individual d ttl clr ty = None
     \<and> DistributionChart_Storewise ttl e dataType chartType = None
     \<and> UnifiedDistributionChart d ttl clr ty = None
     \<and> UnifiedDistributionChart_sorted options d ttl clr ty = None"
  using assms
  by (auto simp: DistributionChart_App_def DistributionChart_Individual_def
      DistributionChart_Storewise_def UnifiedDistributionChart_def
      UnifiedDistributionChart_sorted_def)

theorem empty_data_renders_nothing_witness:
  "DistributionChart_App (Some []) ''Age Distribution'' ''#319dff'' ''age'' = None
   \<and> DistributionChart_Individual (Some []) ''Age Distribution'' ''#319dff'' ''age'' = None
   \<and> DistributionChart_Storewise ''Age Distribution'' None ''Age'' ''pie'' = None
   \<and> UnifiedDistributionChart (Some []) ''Age Distribution'' ''#319dff'' ''age'' = None
   \<and> UnifiedDistributionChart_sorted (\<lambda>t. None) (Some []) ''Age Distribution'' ''#319dff'' ''age''
       = None"
proof -
  have a: "(Some [] :: dist_item list option) = None \<or> (Some [] :: dist_item list option) = Some []"
    and b: "(None :: sw_item list option) = None \<or> (None :: sw_item list option) = Some []"
    by simp_all
  from empty_data_renders_nothing [OF a b] show ?thesis by blast
qed

text \<open>With data, each of them returns a chart.\<close>

lemma data_renders_chart:
  assumes "xs \<noteq> []" and "zs \<noteq> []"
  shows "DistributionChart_App (Some xs) ttl clr ty \<noteq> None
     \<and> DistributionChart_Individual (Some xs) ttl clr ty \<noteq> None
     \<and> DistributionChart_Storewise ttl (Some zs) dataType chartType \<noteq> None
     \<and> UnifiedDistributionChart (Some xs) ttl clr ty \<noteq> None
     \<and> UnifiedDistributionChart_sorted options (Some xs) ttl clr ty \<noteq> None"
  using assms
  by (auto simp: DistributionChart_App_def DistributionChart_Individual_def
      DistributionChart_Storewise_def UnifiedDistributionChart_def Let_def
      UnifiedDistributionChart_sorted_def sortDistributionData_def split: option.splits)

end
